theory Spec2Isabelle
  imports Main
begin

section \<open>JavaScript values\<close>

text \<open>
  The records exchanged with the remote store are JSON documents, and the code tests
  them with JavaScript's truthiness (\<^verbatim>\<open>!x\<close>, \<^verbatim>\<open>a || b\<close>, \<^verbatim>\<open>a && b\<close>). A value is one
  of the JSON shapes or \<^verbatim>\<open>undefined\<close> (what reading a missing property gives). An
  object is an association list; the first binding of a key is the one a read finds.
  Numbers are the integers (identifiers, counters); JSON has no NaN.
\<close>

datatype json =
    JUndefined
  | JNull
  | JBool bool
  | JNum int
  | JStr string
  | JArr "json list"
  | JObj "(string \<times> json) list"

fun truthy :: "json \<Rightarrow> bool" where
  "truthy JUndefined = False"
| "truthy JNull = False"
| "truthy (JBool b) = b"
| "truthy (JNum n) = (n \<noteq> 0)"
| "truthy (JStr s) = (s \<noteq> [])"
| "truthy (JArr xs) = True"
| "truthy (JObj kvs) = True"

text \<open>\<^verbatim>\<open>a || b\<close>: the left operand when it is truthy, the right one otherwise.\<close>

definition js_or :: "json \<Rightarrow> json \<Rightarrow> json" where
  "js_or a b = (if truthy a then a else b)"

text \<open>
  \<^verbatim>\<open>v.k\<close> on a value that is neither \<^verbatim>\<open>null\<close> nor \<^verbatim>\<open>undefined\<close>: the bound value on an
  object that has the key, \<^verbatim>\<open>undefined\<close> otherwise (the keys read by this program,
  \<^verbatim>\<open>url\<close>, \<^verbatim>\<open>data\<close>, \<^verbatim>\<open>attributes\<close>, \<^verbatim>\<open>documentId\<close>, \<^verbatim>\<open>id\<close>, ..., are no built-in property
  of a string, number, boolean or array). A read on \<^verbatim>\<open>null\<close> or \<^verbatim>\<open>undefined\<close> throws a
  TypeError; every function below that can reach such a read models the throw itself.
\<close>

fun field :: "json \<Rightarrow> string \<Rightarrow> json" where
  "field (JObj kvs) k = (case map_of kvs k of Some v \<Rightarrow> v | None \<Rightarrow> JUndefined)"
| "field v k = JUndefined"

text \<open>\<^verbatim>\<open>s.startsWith(p)\<close> and \<^verbatim>\<open>s.includes(sub)\<close> on strings.\<close>

fun startsWith :: "string \<Rightarrow> string \<Rightarrow> bool" where
  "startsWith s [] = True"
| "startsWith [] (p # ps) = False"
| "startsWith (c # cs) (p # ps) = (c = p \<and> startsWith cs ps)"

fun includes_str :: "string \<Rightarrow> string \<Rightarrow> bool" where
  "includes_str [] sub = (sub = [])"
| "includes_str (c # cs) sub = (startsWith (c # cs) sub \<or> includes_str cs sub)"

text \<open>\<^verbatim>\<open>s.trim()\<close>, on the ASCII white space.\<close>

definition blank :: "char \<Rightarrow> bool" where
  "blank c = (c \<in> set [CHR '' '', CHR 0x09, CHR 0x0A, CHR 0x0B, CHR 0x0C, CHR 0x0D])"

definition trim :: "string \<Rightarrow> string" where
  "trim s = rev (dropWhile blank (rev (dropWhile blank s)))"

section \<open>Image URL resolution (services/strapi.js, getImageUrl)\<close>

text \<open>
  \<^verbatim>\<open>STRAPI_URL = import.meta.env.VITE_STRAPI_URL || 'http://localhost:1337'\<close>: the
  configured base URL is the environment's setting when it is set to a non-empty string.
\<close>

definition STRAPI_URL :: "string option \<Rightarrow> string" where
  "STRAPI_URL env =
     (case env of
        None \<Rightarrow> ''http://localhost:1337''
      | Some u \<Rightarrow> if u \<noteq> [] then u else ''http://localhost:1337'')"

definition PLACEHOLDER :: string where
  "PLACEHOLDER = ''https://via.placeholder.com/300x200?text=No+Image''"

datatype js_error = TypeError string | SyntaxError string | RangeError string | Error string

text \<open>
  The chain of \<^verbatim>\<open>if / else if\<close> that picks the candidate URL; \<^verbatim>\<open>null\<close> when no branch
  fires. Each nested read is guarded by the truthiness of the value it reads from.
\<close>

definition pick_url :: "json \<Rightarrow> json" where
  "pick_url imageData =
     (case imageData of
        JStr s \<Rightarrow> JStr s
      | _ \<Rightarrow>
        if truthy (field imageData ''url'') then field imageData ''url''
        else if truthy (field imageData ''data'')
             \<and> truthy (field (field imageData ''data'') ''attributes'')
             \<and> truthy (field (field (field imageData ''data'') ''attributes'') ''url'')
        then field (field (field imageData ''data'') ''attributes'') ''url''
        else if truthy (field imageData ''attributes'')
             \<and> truthy (field (field imageData ''attributes'') ''url'')
        then field (field imageData ''attributes'') ''url''
        else JNull)"

text \<open>
  \<^verbatim>\<open>getImageUrl(imageData, fallback)\<close>. A candidate that is truthy but no string has no
  \<^verbatim>\<open>startsWith\<close> method: the call throws a TypeError.
\<close>

definition getImageUrl_with :: "string option \<Rightarrow> string \<Rightarrow> json \<Rightarrow> js_error + string" where
  "getImageUrl_with env fallback imageData =
     (if \<not> truthy imageData then Inr fallback
      else
        let imageUrl = pick_url imageData in
        if \<not> truthy imageUrl then Inr fallback
        else
          (case imageUrl of
             JStr u \<Rightarrow>
               if \<not> startsWith u ''http'' then Inr (STRAPI_URL env @ u) else Inr u
           | _ \<Rightarrow> Inl (TypeError ''imageUrl.startsWith is not a function'')))"

text \<open>The call with one argument takes the default of the second parameter.\<close>

definition getImageUrl :: "string option \<Rightarrow> json \<Rightarrow> js_error + string" where
  "getImageUrl env imageData = getImageUrl_with env PLACEHOLDER imageData"

text \<open>What the last step makes of a candidate string: absolute as it is, else prefixed.\<close>

definition absolutise :: "string option \<Rightarrow> string \<Rightarrow> string" where
  "absolutise env u = (if startsWith u ''http'' then u else STRAPI_URL env @ u)"

lemma startsWith_append: "startsWith (p @ r) p"
  by (induction p) auto

lemma startsWith_iff: "startsWith s p \<longleftrightarrow> (\<exists>r. s = p @ r)"
  by (induction s p rule: startsWith.induct) auto

lemma startsWith_trans: "startsWith s p \<Longrightarrow> startsWith p q \<Longrightarrow> startsWith s q"
  by (auto simp: startsWith_iff)

lemma pick_url_not_string:
  assumes "\<forall>s. imageData \<noteq> JStr s"
  shows "pick_url imageData =
     (if truthy (field imageData ''url'') then field imageData ''url''
      else if truthy (field (field (field imageData ''data'') ''attributes'') ''url'')
      then field (field (field imageData ''data'') ''attributes'') ''url''
      else if truthy (field (field imageData ''attributes'') ''url'')
      then field (field imageData ''attributes'') ''url''
      else JNull)"
proof -
  have nested: "truthy (field v k) \<Longrightarrow> truthy v" for v k
    by (cases v) auto
  show ?thesis
    using assms nested by (cases imageData) (auto simp: pick_url_def)
qed

lemma getImageUrl_candidate:
  assumes "truthy imageData" and "pick_url imageData = JStr u" and "u \<noteq> []"
  shows "getImageUrl env imageData = Inr (absolutise env u)"
  using assms by (simp add: getImageUrl_def getImageUrl_with_def absolutise_def)

text \<open>
  C5. A string that starts with \<^verbatim>\<open>http://\<close> or \<^verbatim>\<open>https://\<close> is returned unchanged; a
  path that starts with \<^verbatim>\<open>/\<close> is returned behind the configured base URL. For a value
  that is no string the candidates are tried in the order \<^verbatim>\<open>url\<close>, \<^verbatim>\<open>data.attributes.url\<close>,
  \<^verbatim>\<open>attributes.url\<close>: the first one that is a non-empty string is the one resolved,
  whatever the later ones hold. A falsy input (\<^verbatim>\<open>null\<close>, \<^verbatim>\<open>undefined\<close>, the empty string) and
  a value none of whose candidates is truthy give the fixed placeholder.
\<close>

theorem getImageUrl_resolution:
  "((startsWith s ''http://'' \<or> startsWith s ''https://'') \<longrightarrow>
      getImageUrl env (JStr s) = Inr s)
   \<and> (getImageUrl env (JStr (CHR ''/'' # p)) = Inr (STRAPI_URL env @ CHR ''/'' # p))
   \<and> (truthy v \<and> (\<forall>x. v \<noteq> JStr x) \<and> u \<noteq> [] \<longrightarrow>
        (field v ''url'' = JStr u \<longrightarrow> getImageUrl env v = Inr (absolutise env u))
      \<and> (\<not> truthy (field v ''url'')
           \<and> field (field (field v ''data'') ''attributes'') ''url'' = JStr u \<longrightarrow>
           getImageUrl env v = Inr (absolutise env u))
      \<and> (\<not> truthy (field v ''url'')
           \<and> \<not> truthy (field (field (field v ''data'') ''attributes'') ''url'')
           \<and> field (field v ''attributes'') ''url'' = JStr u \<longrightarrow>
           getImageUrl env v = Inr (absolutise env u)))
   \<and> (\<not> truthy v \<longrightarrow> getImageUrl env v = Inr PLACEHOLDER)
   \<and> ((\<forall>x. v \<noteq> JStr x)
        \<and> \<not> truthy (field v ''url'')
        \<and> \<not> truthy (field (field (field v ''data'') ''attributes'') ''url'')
        \<and> \<not> truthy (field (field v ''attributes'') ''url'') \<longrightarrow>
        getImageUrl env v = Inr PLACEHOLDER)"
proof (intro conjI impI)
  assume abs: "startsWith s ''http://'' \<or> startsWith s ''https://''"
  then have http: "startsWith s ''http''"
    by (auto elim: startsWith_trans)
  from abs have "s \<noteq> []" by auto
  with http show "getImageUrl env (JStr s) = Inr s"
    by (simp add: getImageUrl_def getImageUrl_with_def pick_url_def)
next
  show "getImageUrl env (JStr (CHR ''/'' # p)) = Inr (STRAPI_URL env @ CHR ''/'' # p)"
    by (simp add: getImageUrl_def getImageUrl_with_def pick_url_def)
next
  assume "truthy v \<and> (\<forall>x. v \<noteq> JStr x) \<and> u \<noteq> []" and "field v ''url'' = JStr u"
  then show "getImageUrl env v = Inr (absolutise env u)"
    by (intro getImageUrl_candidate) (simp_all add: pick_url_not_string)
next
  assume "truthy v \<and> (\<forall>x. v \<noteq> JStr x) \<and> u \<noteq> []"
    and "\<not> truthy (field v ''url'')
       \<and> field (field (field v ''data'') ''attributes'') ''url'' = JStr u"
  then show "getImageUrl env v = Inr (absolutise env u)"
    by (intro getImageUrl_candidate) (simp_all add: pick_url_not_string)
next
  assume "truthy v \<and> (\<forall>x. v \<noteq> JStr x) \<and> u \<noteq> []"
    and "\<not> truthy (field v ''url'')
       \<and> \<not> truthy (field (field (field v ''data'') ''attributes'') ''url'')
       \<and> field (field v ''attributes'') ''url'' = JStr u"
  then show "getImageUrl env v = Inr (absolutise env u)"
    by (intro getImageUrl_candidate) (simp_all add: pick_url_not_string)
next
  assume "\<not> truthy v"
  then show "getImageUrl env v = Inr PLACEHOLDER"
    by (simp add: getImageUrl_def getImageUrl_with_def)
next
  assume none: "(\<forall>x. v \<noteq> JStr x)
        \<and> \<not> truthy (field v ''url'')
        \<and> \<not> truthy (field (field (field v ''data'') ''attributes'') ''url'')
        \<and> \<not> truthy (field (field v ''attributes'') ''url'')"
  then have "pick_url v = JNull"
    by (simp add: pick_url_not_string)
  then show "getImageUrl env v = Inr PLACEHOLDER"
    by (simp add: getImageUrl_def getImageUrl_with_def)
qed

theorem getImageUrl_resolution_witness:
  "getImageUrl None (JStr ''https://x/y.png'') = Inr ''https://x/y.png''
   \<and> getImageUrl (Some ''https://cms.example'') (JStr ''/uploads/a.png'')
       = Inr ''https://cms.example/uploads/a.png''
   \<and> getImageUrl None
         (JObj [(''attributes'', JObj [(''url'', JStr ''/a.png'')]), (''url'', JStr ''/u.png'')])
       = Inr ''http://localhost:1337/u.png''
   \<and> getImageUrl None
         (JObj [(''attributes'', JObj [(''url'', JStr ''/a.png'')]),
                (''data'', JObj [(''attributes'', JObj [(''url'', JStr ''http://d/d.png'')])])])
       = Inr ''http://d/d.png''
   \<and> getImageUrl None (JObj [(''attributes'', JObj [(''url'', JStr ''/a.png'')])])
       = Inr ''http://localhost:1337/a.png''
   \<and> getImageUrl None JNull = Inr PLACEHOLDER
   \<and> getImageUrl None (JObj [(''name'', JStr ''a.png'')]) = Inr PLACEHOLDER"
  using
    getImageUrl_resolution [where s = "''https://x/y.png''" and env = None and v = JNull
      and u = "''x''" and p = "[]"]
    getImageUrl_resolution [where s = "[]" and env = "Some ''https://cms.example''"
      and v = JNull and u = "''x''" and p = "''uploads/a.png''"]
    getImageUrl_resolution [where s = "[]" and env = None and u = "''/u.png''" and p = "[]"
      and v = "JObj [(''attributes'', JObj [(''url'', JStr ''/a.png'')]), (''url'', JStr ''/u.png'')]"]
    getImageUrl_resolution [where s = "[]" and env = None and u = "''http://d/d.png''"
      and p = "[]"
      and v = "JObj [(''attributes'', JObj [(''url'', JStr ''/a.png'')]),
                (''data'', JObj [(''attributes'', JObj [(''url'', JStr ''http://d/d.png'')])])]"]
    getImageUrl_resolution [where s = "[]" and env = None and u = "''/a.png''" and p = "[]"
      and v = "JObj [(''attributes'', JObj [(''url'', JStr ''/a.png'')])]"]
    getImageUrl_resolution [where s = "[]" and env = None and u = "''x''" and p = "[]"
      and v = "JObj [(''name'', JStr ''a.png'')]"]
  by (simp add: absolutise_def STRAPI_URL_def)

section \<open>Booking record normalisation (services/strapi.js, fetchBookingsForUser)\<close>

text \<open>
  The object literal that the callback of \<^verbatim>\<open>(result.data || []).map(booking => ...)\<close>
  builds from a raw record, with its properties in the order of the source. The booking
  is neither \<^verbatim>\<open>null\<close> nor \<^verbatim>\<open>undefined\<close> here: \<open>normalizeAll\<close>, with the function
  \<open>fetchBookingsForUser\<close> further down, models the TypeError the callback throws on such
  an element.
\<close>

definition normalizeBooking :: "json \<Rightarrow> json" where
  "normalizeBooking booking =
     JObj [
       (''id'', js_or (field booking ''documentId'') (field booking ''id'')),
       (''documentId'', field booking ''documentId''),
       (''strapiId'', field booking ''id''),
       (''userEmail'', field booking ''userEmail''),
       (''userName'', js_or (field booking ''userName'') (field booking ''user_name'')),
       (''scheduleTime'', field booking ''scheduleTime''),
       (''date'', field booking ''scheduleTime''),
       (''bookingStatus'', field booking ''bookingStatus''),
       (''status'', field booking ''bookingStatus''),
       (''service'', field booking ''service'')]"

section \<open>The booking list (MyBookings): derived status and the two tabs\<close>

text \<open>
  The tab filters read \<^verbatim>\<open>booking.bookingStatus || booking.status || 'confirmed'\<close> from a
  record of the fetched list; the status badge reads the same chain ending in
  \<^verbatim>\<open>'pending'\<close>.
\<close>

definition filter_status :: "json \<Rightarrow> json" where
  "filter_status booking =
     js_or (js_or (field booking ''bookingStatus'') (field booking ''status''))
       (JStr ''confirmed'')"

definition badge_status :: "json \<Rightarrow> json" where
  "badge_status booking =
     js_or (js_or (field booking ''bookingStatus'') (field booking ''status''))
       (JStr ''pending'')"

text \<open>
  An instant is a count of milliseconds; \<open>None\<close> is dayjs's invalid date, for which
  \<^verbatim>\<open>isAfter\<close> and \<^verbatim>\<open>isBefore\<close> are both false. The parser \<^verbatim>\<open>dayjs(x)\<close> is the library's: it
  is a parameter here. \<^verbatim>\<open>.tz(userTimezone)\<close> changes how an instant is displayed, not the
  instant the comparison reads.
\<close>

definition isAfter :: "int option \<Rightarrow> int \<Rightarrow> bool" where
  "isAfter d n = (case d of None \<Rightarrow> False | Some t \<Rightarrow> n < t)"

definition isBefore :: "int option \<Rightarrow> int \<Rightarrow> bool" where
  "isBefore d n = (case d of None \<Rightarrow> False | Some t \<Rightarrow> t < n)"

definition bookingDate :: "(json \<Rightarrow> int option) \<Rightarrow> json \<Rightarrow> int option" where
  "bookingDate dayjs booking =
     dayjs (js_or (field booking ''scheduleTime'') (field booking ''date''))"

definition upcomingBookings :: "(json \<Rightarrow> int option) \<Rightarrow> int \<Rightarrow> json list \<Rightarrow> json list" where
  "upcomingBookings dayjs now bookings =
     filter (\<lambda>booking. isAfter (bookingDate dayjs booking) now
                       \<and> filter_status booking \<noteq> JStr ''cancelled'') bookings"

definition pastBookings :: "(json \<Rightarrow> int option) \<Rightarrow> int \<Rightarrow> json list \<Rightarrow> json list" where
  "pastBookings dayjs now bookings =
     filter (\<lambda>booking. isBefore (bookingDate dayjs booking) now
                       \<or> filter_status booking = JStr ''cancelled'') bookings"

text \<open>
  \<^verbatim>\<open>dayjs(n)\<close> of a number is the instant \<^verbatim>\<open>n\<close> milliseconds after the epoch; this
  fragment of the parser is enough to run the filters on concrete lists.
\<close>

definition dayjs_number :: "json \<Rightarrow> int option" where
  "dayjs_number v = (case v of JNum n \<Rightarrow> Some n | _ \<Rightarrow> None)"

lemma field_normalizeBooking:
  "field (normalizeBooking raw) ''id'' = js_or (field raw ''documentId'') (field raw ''id'')"
  "field (normalizeBooking raw) ''strapiId'' = field raw ''id''"
  "field (normalizeBooking raw) ''bookingStatus'' = field raw ''bookingStatus''"
  "field (normalizeBooking raw) ''status'' = field raw ''bookingStatus''"
  by (simp_all add: normalizeBooking_def)

text \<open>
  C6. When the raw record has no document identifier (the property is missing or
  \<^verbatim>\<open>null\<close>), the canonical \<^verbatim>\<open>id\<close> is the legacy \<^verbatim>\<open>id\<close>; when it has one (a non-empty string),
  the canonical \<^verbatim>\<open>id\<close> is the document identifier, whatever the legacy \<^verbatim>\<open>id\<close> is; and the
  legacy \<^verbatim>\<open>id\<close> is kept in \<^verbatim>\<open>strapiId\<close> in both cases.
\<close>

theorem normalizeBooking_id:
  "((field raw ''documentId'' = JUndefined \<or> field raw ''documentId'' = JNull) \<longrightarrow>
      field (normalizeBooking raw) ''id'' = field raw ''id'')
   \<and> (field raw ''documentId'' = JStr d \<and> d \<noteq> [] \<longrightarrow>
      field (normalizeBooking raw) ''id'' = JStr d)
   \<and> field (normalizeBooking raw) ''strapiId'' = field raw ''id''"
  by (auto simp: field_normalizeBooking js_or_def)

theorem normalizeBooking_id_witness:
  "field (normalizeBooking (JObj [(''id'', JNum 7)])) ''id'' = JNum 7
   \<and> field (normalizeBooking (JObj [(''id'', JNum 7), (''documentId'', JStr ''k3x9'')])) ''id''
       = JStr ''k3x9''
   \<and> field (normalizeBooking (JObj [(''id'', JNum 7), (''documentId'', JStr ''k3x9'')]))
         ''strapiId'' = JNum 7"
  using
    normalizeBooking_id [where raw = "JObj [(''id'', JNum 7)]" and d = "''x''"]
    normalizeBooking_id [where raw = "JObj [(''id'', JNum 7), (''documentId'', JStr ''k3x9'')]"
      and d = "''k3x9''"]
  by simp

text \<open>
  C4 as the code has it. The normalised record carries the raw \<^verbatim>\<open>bookingStatus\<close> in both
  of its status properties and never reads the raw record's generic \<^verbatim>\<open>status\<close>; the
  status the tab filters derive from a normalised record is therefore the raw
  \<^verbatim>\<open>bookingStatus\<close> when that is truthy and \<^verbatim>\<open>'confirmed'\<close> otherwise.
\<close>

theorem normalizeBooking_status:
  "field (normalizeBooking raw) ''bookingStatus'' = field raw ''bookingStatus''
   \<and> field (normalizeBooking raw) ''status'' = field raw ''bookingStatus''
   \<and> filter_status (normalizeBooking raw)
       = (if truthy (field raw ''bookingStatus'') then field raw ''bookingStatus''
          else JStr ''confirmed'')"
  by (simp add: field_normalizeBooking filter_status_def js_or_def)

theorem normalizeBooking_status_witness:
  "filter_status (normalizeBooking (JObj [(''bookingStatus'', JStr ''cancelled'')]))
     = JStr ''cancelled''
   \<and> filter_status (normalizeBooking (JObj [(''id'', JNum 7)])) = JStr ''confirmed''"
  using
    normalizeBooking_status [where raw = "JObj [(''bookingStatus'', JStr ''cancelled'')]"]
    normalizeBooking_status [where raw = "JObj [(''id'', JNum 7)]"]
  by simp

text \<open>
  The claim's fallback fails on a raw record that has only the generic \<^verbatim>\<open>status\<close>: the
  normalised record has no status at all, and the filters read it as confirmed.
\<close>

theorem normalizeBooking_status_counterexample:
  "field (normalizeBooking (JObj [(''id'', JNum 7), (''status'', JStr ''cancelled'')]))
     ''status'' = JUndefined
   \<and> filter_status (normalizeBooking (JObj [(''id'', JNum 7), (''status'', JStr ''cancelled'')]))
       = JStr ''confirmed''"
  by (simp add: field_normalizeBooking filter_status_def js_or_def)

lemma in_upcoming:
  "b \<in> set (upcomingBookings dayjs now bookings) \<longleftrightarrow>
     b \<in> set bookings \<and> isAfter (bookingDate dayjs b) now \<and> filter_status b \<noteq> JStr ''cancelled''"
  by (auto simp: upcomingBookings_def)

lemma in_past:
  "b \<in> set (pastBookings dayjs now bookings) \<longleftrightarrow>
     b \<in> set bookings \<and> (isBefore (bookingDate dayjs b) now \<or> filter_status b = JStr ''cancelled'')"
  by (auto simp: pastBookings_def)

text \<open>
  C7. A fetched booking scheduled strictly after now whose status is not cancelled is in
  the upcoming list and not in the past list; a fetched booking whose status is
  cancelled is in the past list, whatever its scheduled instant (an invalid one too).
\<close>

theorem tab_partitioning:
  assumes "b \<in> set bookings"
  shows "(bookingDate dayjs b = Some t \<and> now < t \<and> filter_status b \<noteq> JStr ''cancelled'' \<longrightarrow>
            b \<in> set (upcomingBookings dayjs now bookings)
            \<and> b \<notin> set (pastBookings dayjs now bookings))
         \<and> (filter_status b = JStr ''cancelled'' \<longrightarrow>
            b \<in> set (pastBookings dayjs now bookings)
            \<and> b \<notin> set (upcomingBookings dayjs now bookings))"
  using assms by (auto simp: in_upcoming in_past isAfter_def isBefore_def)

theorem tab_partitioning_witness:
  "JObj [(''scheduleTime'', JNum 2000), (''bookingStatus'', JStr ''confirmed'')]
     \<in> set (upcomingBookings dayjs_number 1000
         [JObj [(''scheduleTime'', JNum 2000), (''bookingStatus'', JStr ''confirmed'')],
          JObj [(''scheduleTime'', JNum 3000), (''bookingStatus'', JStr ''cancelled'')]])
   \<and> JObj [(''scheduleTime'', JNum 2000), (''bookingStatus'', JStr ''confirmed'')]
     \<notin> set (pastBookings dayjs_number 1000
         [JObj [(''scheduleTime'', JNum 2000), (''bookingStatus'', JStr ''confirmed'')],
          JObj [(''scheduleTime'', JNum 3000), (''bookingStatus'', JStr ''cancelled'')]])
   \<and> JObj [(''scheduleTime'', JNum 3000), (''bookingStatus'', JStr ''cancelled'')]
     \<in> set (pastBookings dayjs_number 1000
         [JObj [(''scheduleTime'', JNum 2000), (''bookingStatus'', JStr ''confirmed'')],
          JObj [(''scheduleTime'', JNum 3000), (''bookingStatus'', JStr ''cancelled'')]])
   \<and> JObj [(''scheduleTime'', JNum 3000), (''bookingStatus'', JStr ''cancelled'')]
     \<notin> set (upcomingBookings dayjs_number 1000
         [JObj [(''scheduleTime'', JNum 2000), (''bookingStatus'', JStr ''confirmed'')],
          JObj [(''scheduleTime'', JNum 3000), (''bookingStatus'', JStr ''cancelled'')]])"
  using
    tab_partitioning [where dayjs = dayjs_number and now = 1000 and t = 2000
      and b = "JObj [(''scheduleTime'', JNum 2000), (''bookingStatus'', JStr ''confirmed'')]"
      and bookings =
        "[JObj [(''scheduleTime'', JNum 2000), (''bookingStatus'', JStr ''confirmed'')],
          JObj [(''scheduleTime'', JNum 3000), (''bookingStatus'', JStr ''cancelled'')]]"]
    tab_partitioning [where dayjs = dayjs_number and now = 1000 and t = 3000
      and b = "JObj [(''scheduleTime'', JNum 3000), (''bookingStatus'', JStr ''cancelled'')]"
      and bookings =
        "[JObj [(''scheduleTime'', JNum 2000), (''bookingStatus'', JStr ''confirmed'')],
          JObj [(''scheduleTime'', JNum 3000), (''bookingStatus'', JStr ''cancelled'')]]"]
  by (simp add: bookingDate_def filter_status_def js_or_def dayjs_number_def)

text \<open>
  C10. A fetched booking that is not cancelled and is scheduled exactly at now is in
  neither list, so the two lists do not cover the fetched bookings.
\<close>

theorem tabs_not_exhaustive:
  assumes "bookingDate dayjs b = Some now" and "filter_status b \<noteq> JStr ''cancelled''"
  shows "b \<notin> set (upcomingBookings dayjs now bookings)
         \<and> b \<notin> set (pastBookings dayjs now bookings)"
  using assms by (auto simp: in_upcoming in_past isAfter_def isBefore_def)

theorem tabs_not_exhaustive_witness:
  "JObj [(''scheduleTime'', JNum 1000), (''bookingStatus'', JStr ''confirmed'')]
     \<in> set [JObj [(''scheduleTime'', JNum 1000), (''bookingStatus'', JStr ''confirmed'')]]
   \<and> JObj [(''scheduleTime'', JNum 1000), (''bookingStatus'', JStr ''confirmed'')]
     \<notin> set (upcomingBookings dayjs_number 1000
         [JObj [(''scheduleTime'', JNum 1000), (''bookingStatus'', JStr ''confirmed'')]])
   \<and> JObj [(''scheduleTime'', JNum 1000), (''bookingStatus'', JStr ''confirmed'')]
     \<notin> set (pastBookings dayjs_number 1000
         [JObj [(''scheduleTime'', JNum 1000), (''bookingStatus'', JStr ''confirmed'')]])"
  using
    tabs_not_exhaustive [where dayjs = dayjs_number and now = 1000
      and b = "JObj [(''scheduleTime'', JNum 1000), (''bookingStatus'', JStr ''confirmed'')]"
      and bookings =
        "[JObj [(''scheduleTime'', JNum 1000), (''bookingStatus'', JStr ''confirmed'')]]"]
  by (simp add: bookingDate_def filter_status_def js_or_def dayjs_number_def)

section \<open>The remote store as seen through fetch (services/strapi.js)\<close>

text \<open>
  The requests of the booking life cycle, each one a method and a URL under the base
  URL, with the value that the template literal interpolates:
  \<^item> \<open>ListBookings email\<close>:
    \<^verbatim>\<open>GET /api/bookings?filters[userEmail][$eq]={email}&populate=service.image&sort=scheduleTime:desc\<close>;
  \<^item> \<open>GetBooking id\<close>: \<^verbatim>\<open>GET /api/bookings/{id}?populate=*\<close>;
  \<^item> \<open>FilterByDocumentId id\<close>: \<^verbatim>\<open>GET /api/bookings?filters[documentId][$eq]={id}&populate=*\<close>;
  \<^item> \<open>DeleteBooking id\<close>: \<^verbatim>\<open>DELETE /api/bookings/{id}\<close>;
  \<^item> \<open>PutBooking id body\<close>: \<^verbatim>\<open>PUT /api/bookings/{id}\<close> with the JSON body;
  \<^item> \<open>PostBooking body\<close>: \<^verbatim>\<open>POST /api/bookings\<close> with the JSON body.

  \<^verbatim>\<open>await fetch(...)\<close> either rejects (a network-level failure, a TypeError with a message)
  or resolves to a response: its status and status text, its \<^verbatim>\<open>content-type\<close> header (\<open>None\<close> when the
  header is missing), the text of its body, and what parsing that text as JSON gives
  (\<open>Inl m\<close>: a SyntaxError with message \<open>m\<close>). Reading the body itself does not fail. The
  store is a function from requests to outcomes: one call of \<open>cancelBooking\<close> or of
  \<open>checkBookingExists\<close> issues each request at most once.
\<close>

datatype request =
    ListBookings json
  | GetBooking json
  | FilterByDocumentId json
  | DeleteBooking json
  | PutBooking json json
  | PostBooking json

record response =
  status :: nat
  statusText :: string
  content_type :: "string option"
  body_text :: string
  body_json :: "string + json"

datatype fetch_outcome = Rejected string | Response response

type_synonym store = "request \<Rightarrow> fetch_outcome"

text \<open>The decimal numeral that a template literal writes for a status.\<close>

fun show_nat :: "nat \<Rightarrow> string" where
  "show_nat n =
     (if n < 10 then [''0123456789'' ! n]
      else show_nat (n div 10) @ [''0123456789'' ! (n mod 10)])"

declare show_nat.simps [simp del]

text \<open>\<^verbatim>\<open>response.ok\<close>: the status is in the range 200 to 299.\<close>

definition ok :: "response \<Rightarrow> bool" where
  "ok r = (200 \<le> status r \<and> status r \<le> 299)"

text \<open>\<^verbatim>\<open>await response.json()\<close>.\<close>

definition json_of :: "response \<Rightarrow> js_error + json" where
  "json_of r = (case body_json r of Inl m \<Rightarrow> Inl (SyntaxError m) | Inr v \<Rightarrow> Inr v)"

fun message :: "js_error \<Rightarrow> string" where
  "message (TypeError m) = m"
| "message (SyntaxError m) = m"
| "message (RangeError m) = m"
| "message (Error m) = m"

text \<open>
  \<^verbatim>\<open>result.data\<close> on a parsed body, which nothing guards: on \<^verbatim>\<open>null\<close> the read throws (the
  message is V8's; no engine's wording contains \<^verbatim>\<open>not found\<close> or \<^verbatim>\<open>already deleted\<close>).
\<close>

definition read_data :: "json \<Rightarrow> js_error + json" where
  "read_data result =
     (if result = JNull then Inl (TypeError ''Cannot read properties of null (reading 'data')'')
      else if result = JUndefined
      then Inl (TypeError ''Cannot read properties of undefined (reading 'data')'')
      else Inr (field result ''data''))"

text \<open>
  \<^verbatim>\<open>x > 0\<close> converts \<open>x\<close> to a number first. For a string that is ECMAScript's
  StringToNumber: white space is trimmed; \<^verbatim>\<open>0x\<close>, \<^verbatim>\<open>0o\<close> and \<^verbatim>\<open>0b\<close> introduce unsigned
  integers; otherwise an optional sign is followed by \<^verbatim>\<open>Infinity\<close> or by digits with an
  optional fraction and exponent; anything else is NaN, which is not greater than 0. A
  decimal \<open>m * 10 ^ e\<close> rounds to a positive double exactly when it is greater than
  \<open>2 ^ -1075\<close>, half of the least positive double. An array is converted through its
  string, the elements joined by commas: only an array of one element can be a number. A
  plain object converts to NaN.
\<close>

definition is_digit :: "char \<Rightarrow> bool" where
  "is_digit c = (c \<in> set ''0123456789'')"

definition digits_val :: "string \<Rightarrow> int" where
  "digits_val ds = foldl (\<lambda>a c. 10 * a + (of_char c - 48)) 0 ds"

definition based_gt_zero :: "string \<Rightarrow> string \<Rightarrow> bool" where
  "based_gt_zero alphabet ds =
     (ds \<noteq> [] \<and> list_all (\<lambda>c. c \<in> set alphabet) ds \<and> \<not> list_all (\<lambda>c. c = CHR ''0'') ds)"

definition positive_double :: "int \<Rightarrow> int \<Rightarrow> bool" where
  "positive_double m e =
     (0 < m \<and> (0 \<le> e \<or> 10 ^ nat (- e) < m * 2 ^ 1075))"

definition exponent_of :: "string \<Rightarrow> int option" where
  "exponent_of r =
     (case r of
        [] \<Rightarrow> Some 0
      | c # r1 \<Rightarrow>
          if c = CHR ''e'' \<or> c = CHR ''E'' then
            (case r1 of
               [] \<Rightarrow> None
             | s # r2 \<Rightarrow>
                 if s = CHR ''-'' then
                   (if r2 \<noteq> [] \<and> list_all is_digit r2 then Some (- digits_val r2) else None)
                 else if s = CHR ''+'' then
                   (if r2 \<noteq> [] \<and> list_all is_digit r2 then Some (digits_val r2) else None)
                 else
                   (if list_all is_digit r1 then Some (digits_val r1) else None))
          else None)"

definition decimal_gt_zero :: "string \<Rightarrow> bool" where
  "decimal_gt_zero u =
     (if u = ''Infinity'' then True
      else
        let d1 = takeWhile is_digit u; r1 = dropWhile is_digit u;
            dot = (r1 \<noteq> [] \<and> hd r1 = CHR ''.'');
            d2 = (if dot then takeWhile is_digit (tl r1) else []);
            r2 = (if dot then dropWhile is_digit (tl r1) else r1)
        in if d1 = [] \<and> d2 = [] then False
           else (case exponent_of r2 of
                   None \<Rightarrow> False
                 | Some e \<Rightarrow> positive_double (digits_val (d1 @ d2)) (e - int (length d2))))"

definition string_gt_zero :: "string \<Rightarrow> bool" where
  "string_gt_zero s =
     (let t = trim s in
      if startsWith t ''0x'' \<or> startsWith t ''0X''
      then based_gt_zero ''0123456789abcdefABCDEF'' (drop 2 t)
      else if startsWith t ''0o'' \<or> startsWith t ''0O''
      then based_gt_zero ''01234567'' (drop 2 t)
      else if startsWith t ''0b'' \<or> startsWith t ''0B''
      then based_gt_zero ''01'' (drop 2 t)
      else
        (case t of
           [] \<Rightarrow> False
         | c # r \<Rightarrow>
             if c = CHR ''-'' then False
             else if c = CHR ''+'' then decimal_gt_zero r
             else decimal_gt_zero t))"

fun array_gt_zero :: "json list \<Rightarrow> bool" where
  "array_gt_zero [JNum n] = (0 < n)"
| "array_gt_zero [JStr s] = string_gt_zero s"
| "array_gt_zero [JArr xs] = array_gt_zero xs"
| "array_gt_zero xs = False"

fun gt_zero :: "json \<Rightarrow> bool" where
  "gt_zero (JNum n) = (0 < n)"
| "gt_zero (JBool b) = b"
| "gt_zero (JStr s) = string_gt_zero s"
| "gt_zero (JArr xs) = array_gt_zero xs"
| "gt_zero v = False"

text \<open>
  \<^verbatim>\<open>data.length > 0\<close> and \<^verbatim>\<open>data[0]\<close> on a truthy value: an array or a string has its own
  length and elements; a number or \<^verbatim>\<open>true\<close> has no \<^verbatim>\<open>length\<close> (\<^verbatim>\<open>undefined > 0\<close> is false);
  an object is read for its \<^verbatim>\<open>length\<close> and \<^verbatim>\<open>0\<close> properties.
\<close>

fun has_results :: "json \<Rightarrow> bool" where
  "has_results (JArr xs) = (xs \<noteq> [])"
| "has_results (JStr s) = (s \<noteq> [])"
| "has_results (JObj kvs) = gt_zero (field (JObj kvs) ''length'')"
| "has_results v = False"

fun first_elem :: "json \<Rightarrow> json" where
  "first_elem (JArr xs) = (case xs of [] \<Rightarrow> JUndefined | x # _ \<Rightarrow> x)"
| "first_elem (JStr s) = (case s of [] \<Rightarrow> JUndefined | c # _ \<Rightarrow> JStr [c])"
| "first_elem (JObj kvs) = field (JObj kvs) ''0''"
| "first_elem v = JUndefined"

subsection \<open>fetchBookingsForUser\<close>

text \<open>
  The \<^verbatim>\<open>map\<close> over the fetched records, then the function: a response that is not
  \<^verbatim>\<open>ok\<close> throws \<^verbatim>\<open>HTTP error! status: ...\<close>; \<^verbatim>\<open>result.data || []\<close> must be an array for
  \<^verbatim>\<open>map\<close> to exist; the \<^verbatim>\<open>catch\<close> logs and rethrows.
\<close>

fun normalizeAll :: "json list \<Rightarrow> js_error + json list" where
  "normalizeAll [] = Inr []"
| "normalizeAll (booking # rest) =
     (if booking = JNull \<or> booking = JUndefined
      then Inl (TypeError ''Cannot read properties of null (reading 'documentId')'')
      else (case normalizeAll rest of
              Inl e \<Rightarrow> Inl e
            | Inr bs \<Rightarrow> Inr (normalizeBooking booking # bs)))"

definition fetchBookingsForUser :: "store \<Rightarrow> json \<Rightarrow> js_error + json list" where
  "fetchBookingsForUser fetch userEmail =
     (case fetch (ListBookings userEmail) of
        Rejected m \<Rightarrow> Inl (TypeError m)
      | Response response \<Rightarrow>
          if \<not> ok response
          then Inl (Error (''HTTP error! status: '' @ show_nat (status response)))
          else
            (case json_of response of
               Inl e \<Rightarrow> Inl e
             | Inr result \<Rightarrow>
                 (case read_data result of
                    Inl e \<Rightarrow> Inl e
                  | Inr d \<Rightarrow>
                      (case js_or d (JArr []) of
                         JArr bookings \<Rightarrow> normalizeAll bookings
                       | _ \<Rightarrow> Inl (TypeError ''(result.data || []).map is not a function'')))))"

subsection \<open>createBooking\<close>


subsection \<open>checkBookingExists\<close>

record exists_result =
  exists_flag :: bool
  booking :: json

text \<open>
  The bodies of the two inner \<^verbatim>\<open>try\<close> blocks: \<open>Inr (Some r)\<close> is \<^verbatim>\<open>return r\<close>, \<open>Inr None\<close>
  is reaching the end of the block, \<open>Inl e\<close> is a throw inside it.
\<close>

definition check_direct :: "store \<Rightarrow> json \<Rightarrow> js_error + exists_result option" where
  "check_direct fetch bookingIdentifier =
     (case fetch (GetBooking bookingIdentifier) of
        Rejected m \<Rightarrow> Inl (TypeError m)
      | Response response1 \<Rightarrow>
          if ok response1 then
            (case json_of response1 of
               Inl e \<Rightarrow> Inl e
             | Inr result \<Rightarrow>
                 (case read_data result of
                    Inl e \<Rightarrow> Inl e
                  | Inr d \<Rightarrow>
                      if truthy d then Inr (Some \<lparr>exists_flag = True, booking = d\<rparr>)
                      else Inr None))
          else Inr None)"

definition check_filter :: "store \<Rightarrow> json \<Rightarrow> js_error + exists_result option" where
  "check_filter fetch bookingIdentifier =
     (case fetch (FilterByDocumentId bookingIdentifier) of
        Rejected m \<Rightarrow> Inl (TypeError m)
      | Response response2 \<Rightarrow>
          if ok response2 then
            (case json_of response2 of
               Inl e \<Rightarrow> Inl e
             | Inr result \<Rightarrow>
                 (case read_data result of
                    Inl e \<Rightarrow> Inl e
                  | Inr d \<Rightarrow>
                      if truthy d \<and> has_results d
                      then Inr (Some \<lparr>exists_flag = True, booking = first_elem d\<rparr>)
                      else Inr None))
          else Inr None)"

text \<open>
  Each inner \<^verbatim>\<open>catch\<close> only logs, so a throw inside a block continues after it. The body
  of the outer \<^verbatim>\<open>try\<close> is the two blocks and the final \<^verbatim>\<open>return\<close>; the outer \<^verbatim>\<open>catch\<close>
  answers \<^verbatim>\<open>{ exists: true, booking: null }\<close>.
\<close>

definition caught :: "js_error + exists_result option \<Rightarrow> exists_result option" where
  "caught block = (case block of Inl error \<Rightarrow> None | Inr r \<Rightarrow> r)"

definition check_body :: "store \<Rightarrow> json \<Rightarrow> js_error + exists_result" where
  "check_body fetch bookingIdentifier =
     (case caught (check_direct fetch bookingIdentifier) of
        Some r \<Rightarrow> Inr r
      | None \<Rightarrow>
          (case caught (check_filter fetch bookingIdentifier) of
             Some r \<Rightarrow> Inr r
           | None \<Rightarrow> Inr \<lparr>exists_flag = False, booking = JNull\<rparr>))"

definition checkBookingExists :: "store \<Rightarrow> json \<Rightarrow> exists_result" where
  "checkBookingExists fetch bookingIdentifier =
     (case check_body fetch bookingIdentifier of
        Inl error \<Rightarrow> \<lparr>exists_flag = True, booking = JNull\<rparr>
      | Inr r \<Rightarrow> r)"

text \<open>A store that is unreachable: every request is rejected at the network level.\<close>

definition unreachable :: store where
  "unreachable req = Rejected ''Failed to fetch''"

lemma check_body_returns: "\<exists>r. check_body fetch bookingIdentifier = Inr r"
  by (simp add: check_body_def split: option.split)

lemma checkBookingExists_both_rejected:
  assumes "fetch (GetBooking i) = Rejected m1" and "fetch (FilterByDocumentId i) = Rejected m2"
  shows "checkBookingExists fetch i = \<lparr>exists_flag = False, booking = JNull\<rparr>"
  using assms
  by (simp add: checkBookingExists_def check_body_def caught_def check_direct_def
      check_filter_def)

lemma checkBookingExists_clean_not_found:
  assumes "fetch (GetBooking i) = Response r1" and "status r1 = 404"
    and "fetch (FilterByDocumentId i) = Response r2"
    and "status r2 = 404 \<or> (ok r2 \<and> body_json r2 = Inr (JObj [(''data'', JArr [])]))"
  shows "checkBookingExists fetch i = \<lparr>exists_flag = False, booking = JNull\<rparr>"
  using assms
  by (auto simp: checkBookingExists_def check_body_def caught_def check_direct_def
      check_filter_def ok_def json_of_def read_data_def)

text \<open>
  C2 on the code. With both requests rejected at the network level, each rejection is
  caught by the inner \<^verbatim>\<open>catch\<close> of its own block and the function reaches its final
  \<^verbatim>\<open>return { exists: false, booking: null }\<close>; the outer \<^verbatim>\<open>catch\<close>, whose comment reads
  ``In case of network errors, assume booking might exist to be safe'', is never entered.
\<close>

theorem checkBookingExists_network_failure:
  "checkBookingExists unreachable (JStr ''abc'') = \<lparr>exists_flag = False, booking = JNull\<rparr>"
  by (simp add: checkBookingExists_def check_body_def caught_def check_direct_def
      check_filter_def unreachable_def)

subsection \<open>cancelBooking\<close>

text \<open>
  \<open>cancelBooking\<close> throws in two ways, which the error type keeps apart:
  \<^item> \<open>BookingNotFoundError e\<close>: one of the statements
    \<^verbatim>\<open>throw new Error('Booking not found on server')\<close> outside the cancellation methods,
    or a \<^verbatim>\<open>throw error\<close> that rethrows a caught error whose message includes
    \<^verbatim>\<open>not found\<close>;
  \<^item> \<open>CancellationFailedError e\<close>: the statement after the loop,
    \<^verbatim>\<open>throw lastError || new Error('All cancellation methods failed')\<close>.
  Every function also returns the requests it has issued, in order.
\<close>

datatype cancel_error = BookingNotFoundError js_error | CancellationFailedError js_error

definition NOT_FOUND :: js_error where
  "NOT_FOUND = Error ''Booking not found on server''"

text \<open>
  Strategy 1, the body of its \<^verbatim>\<open>try\<close>: the values of \<^verbatim>\<open>actualBooking\<close> and \<^verbatim>\<open>actualId\<close>
  after it (both start as \<^verbatim>\<open>null\<close>), or a throw.
\<close>

definition direct_query :: "store \<Rightarrow> json \<Rightarrow> js_error + json \<times> json" where
  "direct_query fetch bookingIdentifier =
     (case fetch (GetBooking bookingIdentifier) of
        Rejected m \<Rightarrow> Inl (TypeError m)
      | Response response \<Rightarrow>
          if ok response then
            (case json_of response of
               Inl e \<Rightarrow> Inl e
             | Inr result \<Rightarrow>
                 (case read_data result of
                    Inl e \<Rightarrow> Inl e
                  | Inr d \<Rightarrow>
                      if truthy d then Inr (d, bookingIdentifier) else Inr (JNull, JNull)))
          else if status response = 404 then Inl NOT_FOUND
          else Inr (JNull, JNull))"

text \<open>
  Strategy 2, the body of its \<^verbatim>\<open>try\<close>. When \<^verbatim>\<open>data[0]\<close> is \<^verbatim>\<open>null\<close>, reading its
  \<^verbatim>\<open>documentId\<close> throws with \<^verbatim>\<open>actualBooking\<close> already assigned that falsy value; the
  check after the strategies tests truthiness only, so the state \<^verbatim>\<open>null\<close>, \<^verbatim>\<open>null\<close> that
  the \<^verbatim>\<open>catch\<close> below continues with behaves the same.
\<close>

definition filter_query :: "store \<Rightarrow> json \<Rightarrow> js_error + json \<times> json" where
  "filter_query fetch bookingIdentifier =
     (case fetch (FilterByDocumentId bookingIdentifier) of
        Rejected m \<Rightarrow> Inl (TypeError m)
      | Response searchResponse \<Rightarrow>
          if ok searchResponse then
            (case json_of searchResponse of
               Inl e \<Rightarrow> Inl e
             | Inr searchResult \<Rightarrow>
                 (case read_data searchResult of
                    Inl e \<Rightarrow> Inl e
                  | Inr d \<Rightarrow>
                      if truthy d \<and> has_results d then
                        (let actualBooking = first_elem d in
                         if actualBooking = JNull \<or> actualBooking = JUndefined
                         then Inl (TypeError
                                ''Cannot read properties of null (reading 'documentId')'')
                         else Inr (actualBooking,
                                   js_or (field actualBooking ''documentId'')
                                         (field actualBooking ''id'')))
                      else Inl NOT_FOUND))
          else Inr (JNull, JNull))"

text \<open>
  The \<^verbatim>\<open>catch\<close> of either strategy: an error whose message includes \<^verbatim>\<open>not found\<close> is
  rethrown, any other is logged and the function continues.
\<close>

definition rethrow_not_found :: "js_error + json \<times> json \<Rightarrow> js_error + json \<times> json" where
  "rethrow_not_found block =
     (case block of
        Inl error \<Rightarrow>
          if includes_str (message error) ''not found'' then Inl error else Inr (JNull, JNull)
      | Inr st \<Rightarrow> Inr st)"

text \<open>\<^verbatim>\<open>if (!actualBooking || !actualId) throw new Error('Booking not found on server')\<close>.\<close>

definition located :: "json \<times> json \<Rightarrow> js_error + json" where
  "located st =
     (case st of (actualBooking, actualId) \<Rightarrow>
        if \<not> truthy actualBooking \<or> \<not> truthy actualId then Inl NOT_FOUND else Inr actualId)"

text \<open>The identifier resolution phase: the identifier to cancel with, or the throw.\<close>

definition resolve_booking :: "store \<Rightarrow> json \<Rightarrow> request list \<times> (js_error + json)" where
  "resolve_booking fetch bookingIdentifier =
     (case rethrow_not_found (direct_query fetch bookingIdentifier) of
        Inl e \<Rightarrow> ([GetBooking bookingIdentifier], Inl e)
      | Inr (actualBooking, actualId) \<Rightarrow>
          if \<not> truthy actualBooking then
            (case rethrow_not_found (filter_query fetch bookingIdentifier) of
               Inl e \<Rightarrow>
                 ([GetBooking bookingIdentifier, FilterByDocumentId bookingIdentifier], Inl e)
             | Inr st \<Rightarrow>
                 ([GetBooking bookingIdentifier, FilterByDocumentId bookingIdentifier],
                  located st))
          else ([GetBooking bookingIdentifier], located (actualBooking, actualId)))"

text \<open>The two cancellation methods.\<close>

definition DELETED :: json where
  "DELETED = JObj [(''success'', JBool True), (''message'', JStr ''Booking deleted successfully'')]"

definition CANCELLED :: json where
  "CANCELLED =
     JObj [(''success'', JBool True), (''message'', JStr ''Booking cancelled successfully'')]"

definition STATUS_CANCELLED :: json where
  "STATUS_CANCELLED = JObj [(''data'', JObj [(''bookingStatus'', JStr ''cancelled'')])]"

text \<open>What the DELETE method returns for a response that is \<^verbatim>\<open>ok\<close>.\<close>

definition delete_result :: "response \<Rightarrow> json" where
  "delete_result response =
     (case content_type response of
        None \<Rightarrow> DELETED
      | Some contentType \<Rightarrow>
          if contentType \<noteq> [] \<and> includes_str contentType ''application/json'' then
            (if trim (body_text response) \<noteq> [] then
               (case body_json response of Inr v \<Rightarrow> v | Inl m \<Rightarrow> DELETED)
             else DELETED)
          else DELETED)"

definition delete_method :: "store \<Rightarrow> json \<Rightarrow> request list \<times> (js_error + json)" where
  "delete_method fetch actualId =
     ([DeleteBooking actualId],
      (case fetch (DeleteBooking actualId) of
         Rejected m \<Rightarrow> Inl (TypeError m)
       | Response response \<Rightarrow>
           if \<not> ok response then
             (if status response = 404 then Inl NOT_FOUND
              else Inl (Error (''DELETE failed: '' @ show_nat (status response))))
           else Inr (delete_result response)))"

definition put_method :: "store \<Rightarrow> json \<Rightarrow> request list \<times> (js_error + json)" where
  "put_method fetch actualId =
     ([PutBooking actualId STATUS_CANCELLED],
      (case fetch (PutBooking actualId STATUS_CANCELLED) of
         Rejected m \<Rightarrow> Inl (TypeError m)
       | Response response \<Rightarrow>
           if \<not> ok response then
             (if status response = 404 then Inl (Error ''Booking already deleted'')
              else Inl (Error (''PUT failed: '' @ show_nat (status response))))
           else json_of response))"

text \<open>
  The loop \<^verbatim>\<open>for (let i = 0; i < cancelMethods.length; i++)\<close>: \<open>i\<close> is the index,
  \<open>lastError\<close> the last error caught, and the list holds the methods not yet tried, each
  with the requests it issues when it is called.
\<close>

fun try_methods ::
  "nat \<Rightarrow> js_error option \<Rightarrow> (request list \<times> (js_error + json)) list
     \<Rightarrow> request list \<times> (cancel_error + json)" where
  "try_methods i lastError [] =
     ([], Inl (CancellationFailedError
                (case lastError of
                   Some e \<Rightarrow> e
                 | None \<Rightarrow> Error ''All cancellation methods failed'')))"
| "try_methods i lastError ((issued, outcome) # rest) =
     (case outcome of
        Inr result \<Rightarrow> (issued, Inr result)
      | Inl error \<Rightarrow>
          if includes_str (message error) ''already deleted'' then (issued, Inr CANCELLED)
          else if i = 1 \<and> includes_str (message error) ''not found''
          then (issued, Inr CANCELLED)
          else if includes_str (message error) ''not found''
          then (issued, Inl (BookingNotFoundError error))
          else (case try_methods (i + 1) (Some error) rest of
                  (later, r) \<Rightarrow> (issued @ later, r)))"

definition cancel_with :: "store \<Rightarrow> json \<Rightarrow> request list \<times> (cancel_error + json)" where
  "cancel_with fetch actualId =
     try_methods 0 None [delete_method fetch actualId, put_method fetch actualId]"

definition cancelBooking :: "store \<Rightarrow> json \<Rightarrow> request list \<times> (cancel_error + json)" where
  "cancelBooking fetch bookingIdentifier =
     (case resolve_booking fetch bookingIdentifier of
        (probes, Inl e) \<Rightarrow> (probes, Inl (BookingNotFoundError e))
      | (probes, Inr actualId) \<Rightarrow>
          (case cancel_with fetch actualId of (issued, r) \<Rightarrow> (probes @ issued, r)))"

lemma show_nat_digits: "set (show_nat n) \<subseteq> set ''0123456789''"
proof (induction n rule: show_nat.induct)
  case (1 n)
  have d: "''0123456789'' ! k \<in> set ''0123456789''" if "k < 10" for k
    using that by (intro nth_mem) simp
  show ?case
  proof (cases "n < 10")
    case True
    then show ?thesis using d [of n] by (subst show_nat.simps) simp
  next
    case False
    have "n mod 10 < 10" by simp
    with False 1 d [of "n mod 10"] show ?thesis
      by (subst show_nat.simps) simp
  qed
qed

lemma startsWith_set: "startsWith s sub \<Longrightarrow> set sub \<subseteq> set s"
  by (auto simp: startsWith_iff)

lemma includes_str_set: "includes_str s sub \<Longrightarrow> set sub \<subseteq> set s"
proof (induction s)
  case Nil
  then show ?case by simp
next
  case (Cons c cs)
  then show ?case using startsWith_set [of "c # cs" sub] by auto
qed

lemma status_message_passes:
  "\<not> includes_str (''DELETE failed: '' @ show_nat n) ''not found''"
  "\<not> includes_str (''DELETE failed: '' @ show_nat n) ''already deleted''"
  "\<not> includes_str (''PUT failed: '' @ show_nat n) ''not found''"
  "\<not> includes_str (''PUT failed: '' @ show_nat n) ''already deleted''"
  "\<not> includes_str (show_nat n) ''not found''"
  "\<not> includes_str (show_nat n) ''already deleted''"
proof -
  have n: "CHR ''n'' \<notin> set (show_nat n)" and y: "CHR ''y'' \<notin> set (show_nat n)"
    using show_nat_digits [of n] by auto
  show "\<not> includes_str (''DELETE failed: '' @ show_nat n) ''not found''"
    using includes_str_set [of "''DELETE failed: '' @ show_nat n" "''not found''"] n by auto
  show "\<not> includes_str (''DELETE failed: '' @ show_nat n) ''already deleted''"
    using includes_str_set [of "''DELETE failed: '' @ show_nat n" "''already deleted''"] y by auto
  show "\<not> includes_str (''PUT failed: '' @ show_nat n) ''not found''"
    using includes_str_set [of "''PUT failed: '' @ show_nat n" "''not found''"] n by auto
  show "\<not> includes_str (''PUT failed: '' @ show_nat n) ''already deleted''"
    using includes_str_set [of "''PUT failed: '' @ show_nat n" "''already deleted''"] y by auto
  show "\<not> includes_str (show_nat n) ''not found''"
    using includes_str_set [of "show_nat n" "''not found''"] n by auto
  show "\<not> includes_str (show_nat n) ''already deleted''"
    using includes_str_set [of "show_nat n" "''already deleted''"] y by auto
qed


text \<open>
  The words of the claim on an outcome of \<open>fetch\<close>. A 404 is a response with that
  status. A failure that is no 404 is a response that is not \<^verbatim>\<open>ok\<close> with another status,
  or a rejection whose message reads neither as \<^verbatim>\<open>not found\<close> nor as
  \<^verbatim>\<open>already deleted\<close> (the two texts by which the loop recognises a 404). An error
  passes the loop's \<^verbatim>\<open>catch\<close> on to the next method when its message includes neither.
\<close>

definition is_404 :: "fetch_outcome \<Rightarrow> bool" where
  "is_404 out = (case out of Rejected m \<Rightarrow> False | Response r \<Rightarrow> status r = 404)"

definition non404_failure :: "fetch_outcome \<Rightarrow> bool" where
  "non404_failure out =
     (case out of
        Rejected m \<Rightarrow> \<not> includes_str m ''not found'' \<and> \<not> includes_str m ''already deleted''
      | Response r \<Rightarrow> \<not> ok r \<and> status r \<noteq> 404)"

definition passes_on :: "js_error \<Rightarrow> bool" where
  "passes_on e = (\<not> includes_str (message e) ''already deleted''
                  \<and> \<not> includes_str (message e) ''not found'')"

lemma cancelBooking_located:
  assumes "resolve_booking fetch bookingIdentifier = (probes, Inr actualId)"
  shows "cancelBooking fetch bookingIdentifier
           = (probes @ fst (cancel_with fetch actualId), snd (cancel_with fetch actualId))"
  using assms by (simp add: cancelBooking_def split: prod.split)

lemma cancel_with_delete_ok:
  assumes "fetch (DeleteBooking actualId) = Response rd" and "ok rd"
  shows "cancel_with fetch actualId = ([DeleteBooking actualId], Inr (delete_result rd))"
  using assms by (simp add: cancel_with_def delete_method_def)

lemma cancel_with_delete_404:
  assumes "is_404 (fetch (DeleteBooking actualId))"
  shows "cancel_with fetch actualId
           = ([DeleteBooking actualId], Inl (BookingNotFoundError NOT_FOUND))"
  using assms
  by (auto simp: cancel_with_def delete_method_def is_404_def ok_def NOT_FOUND_def
      split: fetch_outcome.splits)

lemma cancel_with_delete_passes:
  assumes "snd (delete_method fetch actualId) = Inl e1" and "passes_on e1"
  shows "cancel_with fetch actualId =
           ([DeleteBooking actualId, PutBooking actualId STATUS_CANCELLED],
            (case snd (put_method fetch actualId) of
               Inr v \<Rightarrow> Inr v
             | Inl e \<Rightarrow>
                 if includes_str (message e) ''already deleted''
                    \<or> includes_str (message e) ''not found''
                 then Inr CANCELLED else Inl (CancellationFailedError e)))"
proof -
  have d: "delete_method fetch actualId = ([DeleteBooking actualId], Inl e1)"
    using assms(1) by (simp add: delete_method_def)
  obtain p where p: "put_method fetch actualId = ([PutBooking actualId STATUS_CANCELLED], p)"
    by (simp add: put_method_def)
  show ?thesis
    using assms(2) by (cases p) (simp_all add: cancel_with_def d p passes_on_def)
qed

lemma non404_failure_delete:
  assumes "non404_failure (fetch (DeleteBooking actualId))"
  shows "\<exists>e1. snd (delete_method fetch actualId) = Inl e1 \<and> passes_on e1"
  using assms
  by (cases "fetch (DeleteBooking actualId)")
     (auto simp: non404_failure_def delete_method_def passes_on_def status_message_passes)

lemma non404_failure_put:
  assumes "non404_failure (fetch (PutBooking actualId STATUS_CANCELLED))"
  shows "\<exists>e. snd (put_method fetch actualId) = Inl e \<and> passes_on e"
  using assms
  by (cases "fetch (PutBooking actualId STATUS_CANCELLED)")
     (auto simp: non404_failure_def put_method_def passes_on_def status_message_passes)

lemma cancel_with_failed_only_if:
  assumes "snd (cancel_with fetch actualId) = Inl (CancellationFailedError e)"
  shows "fst (cancel_with fetch actualId)
           = [DeleteBooking actualId, PutBooking actualId STATUS_CANCELLED]
         \<and> (\<exists>e1. snd (delete_method fetch actualId) = Inl e1 \<and> passes_on e1)
         \<and> snd (put_method fetch actualId) = Inl e \<and> passes_on e
         \<and> \<not> is_404 (fetch (DeleteBooking actualId))
         \<and> \<not> is_404 (fetch (PutBooking actualId STATUS_CANCELLED))"
proof -
  obtain d where d: "delete_method fetch actualId = ([DeleteBooking actualId], d)"
    by (simp add: delete_method_def)
  obtain p where p: "put_method fetch actualId = ([PutBooking actualId STATUS_CANCELLED], p)"
    by (simp add: put_method_def)
  from assms obtain e1 where e1: "d = Inl e1" "passes_on e1"
    by (cases d) (auto simp: cancel_with_def d p passes_on_def split: if_splits)
  with assms have pe: "p = Inl e" "passes_on e"
    by (cases p; auto simp: cancel_with_def d p passes_on_def split: if_splits)+
  have nd: "\<not> is_404 (fetch (DeleteBooking actualId))"
    using d e1
    by (auto simp: is_404_def delete_method_def passes_on_def NOT_FOUND_def ok_def
        split: fetch_outcome.splits if_splits)
  have np: "\<not> is_404 (fetch (PutBooking actualId STATUS_CANCELLED))"
    using p pe
    by (auto simp: is_404_def put_method_def passes_on_def ok_def
        split: fetch_outcome.splits if_splits)
  show ?thesis
    using e1 pe nd np by (simp add: cancel_with_def d p passes_on_def)
qed


text \<open>
  A store for running the flow: it finds the booking \<^verbatim>\<open>abc\<close> by the direct query, and
  answers the DELETE with status \<open>ds\<close> and an empty body, the PUT with status \<open>ps\<close> and
  the body \<^verbatim>\<open>{}\<close>, and accepts every POST.
\<close>

definition answering :: "nat \<Rightarrow> nat \<Rightarrow> store" where
  \<open>answering ds ps req =
     (case req of
        ListBookings e \<Rightarrow> Rejected ''Failed to fetch''
      | GetBooking i \<Rightarrow>
          Response \<lparr>status = 200, statusText = ''OK'',
            content_type = Some ''application/json'',
            body_text = ''{"data":{"documentId":"abc","id":7}}'',
            body_json = Inr (JObj [(''data'',
              JObj [(''documentId'', JStr ''abc''), (''id'', JNum 7)])])\<rparr>
      | FilterByDocumentId i \<Rightarrow> Rejected ''Failed to fetch''
      | DeleteBooking i \<Rightarrow>
          Response \<lparr>status = ds, statusText = [], content_type = None, body_text = [],
            body_json = Inl ''Unexpected end of JSON input''\<rparr>
      | PutBooking i b \<Rightarrow>
          Response \<lparr>status = ps, statusText = [], content_type = Some ''application/json'',
            body_text = ''{}'', body_json = Inr (JObj [])\<rparr>
      | PostBooking b \<Rightarrow>
          Response \<lparr>status = 200, statusText = ''OK'',
            content_type = Some ''application/json'',
            body_text = ''{}'', body_json = Inr (JObj [])\<rparr>)\<close>

text \<open>
  The flow as the code has it. Let the identifier resolution phase have located a
  record, to be cancelled under \<open>actualId\<close>, after the requests \<open>probes\<close>.
  \<^item> When the DELETE succeeds, the operation returns the DELETE's result and has issued no
    PUT.
  \<^item> When the DELETE fails with 404, the operation throws
    \<^verbatim>\<open>Booking not found on server\<close> and has issued no PUT.
  \<^item> When the DELETE fails with an error that is no 404, the PUT is issued next: if its
    response is \<^verbatim>\<open>ok\<close> and its body parses as JSON the operation returns the parsed body;
    if it fails with 404 the operation returns the success object; if it fails with an
    error that is no 404 either, the operation throws that error as
    \<open>CancellationFailedError\<close>.
  \<^item> When the operation throws \<open>CancellationFailedError e\<close>, both requests were issued,
    both methods threw, \<open>e\<close> is what the PUT method threw, neither error's message
    includes \<^verbatim>\<open>already deleted\<close>, and neither response was a 404.
\<close>

lemma cancelBooking_flow:
  assumes "resolve_booking fetch bookingIdentifier = (probes, Inr actualId)"
  shows
    "(fetch (DeleteBooking actualId) = Response rd \<and> ok rd \<longrightarrow>
        cancelBooking fetch bookingIdentifier
          = (probes @ [DeleteBooking actualId], Inr (delete_result rd)))
     \<and> (is_404 (fetch (DeleteBooking actualId)) \<longrightarrow>
        cancelBooking fetch bookingIdentifier
          = (probes @ [DeleteBooking actualId], Inl (BookingNotFoundError NOT_FOUND)))
     \<and> (non404_failure (fetch (DeleteBooking actualId)) \<longrightarrow>
          (fetch (PutBooking actualId STATUS_CANCELLED) = Response rp \<and> ok rp
             \<and> body_json rp = Inr v \<longrightarrow>
           cancelBooking fetch bookingIdentifier
             = (probes @ [DeleteBooking actualId, PutBooking actualId STATUS_CANCELLED], Inr v))
        \<and> (is_404 (fetch (PutBooking actualId STATUS_CANCELLED)) \<longrightarrow>
           cancelBooking fetch bookingIdentifier
             = (probes @ [DeleteBooking actualId, PutBooking actualId STATUS_CANCELLED],
                Inr CANCELLED))
        \<and> (non404_failure (fetch (PutBooking actualId STATUS_CANCELLED)) \<longrightarrow>
           (\<exists>e2. snd (put_method fetch actualId) = Inl e2
              \<and> cancelBooking fetch bookingIdentifier
                  = (probes @ [DeleteBooking actualId, PutBooking actualId STATUS_CANCELLED],
                     Inl (CancellationFailedError e2)))))
     \<and> (snd (cancelBooking fetch bookingIdentifier) = Inl (CancellationFailedError e) \<longrightarrow>
          fst (cancelBooking fetch bookingIdentifier)
            = probes @ [DeleteBooking actualId, PutBooking actualId STATUS_CANCELLED]
        \<and> (\<exists>e1. snd (delete_method fetch actualId) = Inl e1
              \<and> \<not> includes_str (message e1) ''already deleted'')
        \<and> snd (put_method fetch actualId) = Inl e
        \<and> \<not> includes_str (message e) ''already deleted''
        \<and> \<not> is_404 (fetch (DeleteBooking actualId))
        \<and> \<not> is_404 (fetch (PutBooking actualId STATUS_CANCELLED)))"
proof -
  note loc = cancelBooking_located [OF assms]
  let ?D = "DeleteBooking actualId" and ?P = "PutBooking actualId STATUS_CANCELLED"
  have a: "cancelBooking fetch bookingIdentifier = (probes @ [?D], Inr (delete_result rd))"
    if "fetch ?D = Response rd \<and> ok rd"
    using that by (simp add: loc cancel_with_delete_ok)
  have a': "cancelBooking fetch bookingIdentifier
      = (probes @ [?D], Inl (BookingNotFoundError NOT_FOUND))"
    if "is_404 (fetch ?D)"
    using that by (simp add: loc cancel_with_delete_404)
  have b: "cancelBooking fetch bookingIdentifier = (probes @ [?D, ?P], Inr v)"
    if "non404_failure (fetch ?D)" and "fetch ?P = Response rp \<and> ok rp \<and> body_json rp = Inr v"
  proof -
    from that(1) obtain e1 where "snd (delete_method fetch actualId) = Inl e1" "passes_on e1"
      using non404_failure_delete by blast
    moreover have "snd (put_method fetch actualId) = Inr v"
      using that(2) by (simp add: put_method_def json_of_def)
    ultimately show ?thesis
      by (simp add: loc cancel_with_delete_passes)
  qed
  have c: "cancelBooking fetch bookingIdentifier = (probes @ [?D, ?P], Inr CANCELLED)"
    if "non404_failure (fetch ?D)" and "is_404 (fetch ?P)"
  proof -
    from that(1) obtain e1 where "snd (delete_method fetch actualId) = Inl e1" "passes_on e1"
      using non404_failure_delete by blast
    moreover have "snd (put_method fetch actualId) = Inl (Error ''Booking already deleted'')"
      using that(2)
      by (auto simp: put_method_def is_404_def ok_def split: fetch_outcome.splits)
    ultimately show ?thesis
      by (simp add: loc cancel_with_delete_passes)
  qed
  have d: "\<exists>e2. snd (put_method fetch actualId) = Inl e2
            \<and> cancelBooking fetch bookingIdentifier
                = (probes @ [?D, ?P], Inl (CancellationFailedError e2))"
    if "non404_failure (fetch ?D)" and "non404_failure (fetch ?P)"
  proof -
    from that(1) obtain e1 where "snd (delete_method fetch actualId) = Inl e1" "passes_on e1"
      using non404_failure_delete by blast
    moreover from that(2) obtain e2 where "snd (put_method fetch actualId) = Inl e2" "passes_on e2"
      using non404_failure_put by blast
    ultimately show ?thesis
      by (simp add: loc cancel_with_delete_passes passes_on_def)
  qed
  have e: "fst (cancelBooking fetch bookingIdentifier) = probes @ [?D, ?P]
        \<and> (\<exists>e1. snd (delete_method fetch actualId) = Inl e1
              \<and> \<not> includes_str (message e1) ''already deleted'')
        \<and> snd (put_method fetch actualId) = Inl e
        \<and> \<not> includes_str (message e) ''already deleted''
        \<and> \<not> is_404 (fetch ?D) \<and> \<not> is_404 (fetch ?P)"
    if "snd (cancelBooking fetch bookingIdentifier) = Inl (CancellationFailedError e)"
  proof -
    from that have "snd (cancel_with fetch actualId) = Inl (CancellationFailedError e)"
      by (simp add: loc)
    from cancel_with_failed_only_if [OF this] show ?thesis
      by (auto simp: loc passes_on_def)
  qed
  from a a' b c d e show ?thesis by blast
qed

lemma resolve_answering:
  "resolve_booking (answering ds ps) (JStr ''abc'') = ([GetBooking (JStr ''abc'')], Inr (JStr ''abc''))"
  by (simp add: resolve_booking_def rethrow_not_found_def direct_query_def answering_def ok_def
      json_of_def read_data_def located_def)

lemma cancelBooking_flow_example:
  "cancelBooking (answering 204 200) (JStr ''abc'')
     = ([GetBooking (JStr ''abc''), DeleteBooking (JStr ''abc'')], Inr DELETED)
   \<and> cancelBooking (answering 404 200) (JStr ''abc'')
     = ([GetBooking (JStr ''abc''), DeleteBooking (JStr ''abc'')],
        Inl (BookingNotFoundError NOT_FOUND))
   \<and> cancelBooking (answering 500 200) (JStr ''abc'')
     = ([GetBooking (JStr ''abc''), DeleteBooking (JStr ''abc''),
         PutBooking (JStr ''abc'') STATUS_CANCELLED], Inr (JObj []))
   \<and> cancelBooking (answering 500 404) (JStr ''abc'')
     = ([GetBooking (JStr ''abc''), DeleteBooking (JStr ''abc''),
         PutBooking (JStr ''abc'') STATUS_CANCELLED], Inr CANCELLED)
   \<and> cancelBooking (answering 500 503) (JStr ''abc'')
     = ([GetBooking (JStr ''abc''), DeleteBooking (JStr ''abc''),
         PutBooking (JStr ''abc'') STATUS_CANCELLED],
        Inl (CancellationFailedError (Error ''PUT failed: 503'')))
   \<and> \<not> is_404 (answering 500 503 (DeleteBooking (JStr ''abc'')))
   \<and> \<not> is_404 (answering 500 503 (PutBooking (JStr ''abc'') STATUS_CANCELLED))"
proof -
  have s503: "show_nat 503 = ''503''"
    by code_simp
  note defs = answering_def ok_def non404_failure_def is_404_def delete_result_def
    put_method_def s503
  from cancelBooking_flow [OF resolve_answering, where ds1 = 204 and ps1 = 200
      and rd = "\<lparr>status = 204, statusText = [], content_type = None, body_text = [],
            body_json = Inl ''Unexpected end of JSON input''\<rparr>"]
  have 1: "cancelBooking (answering 204 200) (JStr ''abc'')
     = ([GetBooking (JStr ''abc''), DeleteBooking (JStr ''abc'')], Inr DELETED)"
    by (simp add: defs)
  from cancelBooking_flow [OF resolve_answering, where ds1 = 404 and ps1 = 200]
  have 7: "cancelBooking (answering 404 200) (JStr ''abc'')
     = ([GetBooking (JStr ''abc''), DeleteBooking (JStr ''abc'')],
        Inl (BookingNotFoundError NOT_FOUND))"
    by (simp add: defs)
  from cancelBooking_flow [OF resolve_answering, where ds1 = 500 and ps1 = 200
      and rp = "\<lparr>status = 200, statusText = [], content_type = Some ''application/json'',
            body_text = ''{}'', body_json = Inr (JObj [])\<rparr>" and v = "JObj []"]
  have 2: "cancelBooking (answering 500 200) (JStr ''abc'')
     = ([GetBooking (JStr ''abc''), DeleteBooking (JStr ''abc''),
         PutBooking (JStr ''abc'') STATUS_CANCELLED], Inr (JObj []))"
    by (simp add: defs)
  from cancelBooking_flow [OF resolve_answering, where ds1 = 500 and ps1 = 404]
  have 3: "cancelBooking (answering 500 404) (JStr ''abc'')
     = ([GetBooking (JStr ''abc''), DeleteBooking (JStr ''abc''),
         PutBooking (JStr ''abc'') STATUS_CANCELLED], Inr CANCELLED)"
    by (simp add: defs)
  have p: "snd (put_method (answering 500 503) (JStr ''abc'')) = Inl (Error ''PUT failed: 503'')"
    by (simp add: defs)
  have "non404_failure (answering 500 503 (DeleteBooking (JStr ''abc'')))"
    and "non404_failure (answering 500 503 (PutBooking (JStr ''abc'') STATUS_CANCELLED))"
    by (simp_all add: defs)
  with cancelBooking_flow [OF resolve_answering, where ds1 = 500 and ps1 = 503]
  obtain e2 where "snd (put_method (answering 500 503) (JStr ''abc'')) = Inl e2"
    and "cancelBooking (answering 500 503) (JStr ''abc'')
     = ([GetBooking (JStr ''abc'')]
          @ [DeleteBooking (JStr ''abc''), PutBooking (JStr ''abc'') STATUS_CANCELLED],
        Inl (CancellationFailedError e2))"
    by blast
  with p have 4: "cancelBooking (answering 500 503) (JStr ''abc'')
     = ([GetBooking (JStr ''abc''), DeleteBooking (JStr ''abc''),
         PutBooking (JStr ''abc'') STATUS_CANCELLED],
        Inl (CancellationFailedError (Error ''PUT failed: 503'')))"
    by simp
  from cancelBooking_flow [OF resolve_answering, where ds1 = 500 and ps1 = 503
      and e = "Error ''PUT failed: 503''"] 4
  have 5: "\<not> is_404 (answering 500 503 (DeleteBooking (JStr ''abc'')))
   \<and> \<not> is_404 (answering 500 503 (PutBooking (JStr ''abc'') STATUS_CANCELLED))"
    by simp
  from 1 7 2 3 4 5 show ?thesis by simp
qed

text \<open>An outcome of \<open>fetch\<close> that is a response with \<^verbatim>\<open>response.ok\<close>.\<close>

definition is_ok :: "fetch_outcome \<Rightarrow> bool" where
  "is_ok out = (case out of Rejected m \<Rightarrow> False | Response r \<Rightarrow> ok r)"

text \<open>
  The store \<open>answering 500 200\<close>, except that it answers the PUT with
  \<^verbatim>\<open>204 No Content\<close>: the status update is done and the response has no body.
\<close>

definition put_no_content :: store where
  "put_no_content req =
     (case req of
        PutBooking i b \<Rightarrow>
          Response \<lparr>status = 204, statusText = ''No Content'', content_type = None,
            body_text = [], body_json = Inl ''Unexpected end of JSON input''\<rparr>
      | _ \<Rightarrow> answering 500 200 req)"

text \<open>
  C1 on the code. The record is located by the direct query, the DELETE fails with
  status 500, and the PUT that sets \<^verbatim>\<open>bookingStatus\<close> to \<^verbatim>\<open>cancelled\<close> succeeds with status
  204 and an empty body. The PUT method ends in \<^verbatim>\<open>return await response.json()\<close>, which
  throws a SyntaxError on the empty body; the loop has no method left and the operation
  throws that error after the loop, although the status update succeeded. The DELETE
  method, by contrast, looks at the content type and the text before it parses.
\<close>

theorem cancelBooking_put_no_content:
  "cancelBooking put_no_content (JStr ''abc'')
     = ([GetBooking (JStr ''abc''), DeleteBooking (JStr ''abc''),
         PutBooking (JStr ''abc'')
           (JObj [(''data'', JObj [(''bookingStatus'', JStr ''cancelled'')])])],
        Inl (CancellationFailedError (SyntaxError ''Unexpected end of JSON input'')))
   \<and> non404_failure (put_no_content (DeleteBooking (JStr ''abc'')))
   \<and> is_ok (put_no_content (PutBooking (JStr ''abc'')
               (JObj [(''data'', JObj [(''bookingStatus'', JStr ''cancelled'')])])))"
proof -
  have r: "resolve_booking put_no_content (JStr ''abc'')
      = ([GetBooking (JStr ''abc'')], Inr (JStr ''abc''))"
    by (simp add: resolve_booking_def rethrow_not_found_def direct_query_def
        put_no_content_def answering_def ok_def json_of_def read_data_def located_def)
  have n: "non404_failure (put_no_content (DeleteBooking (JStr ''abc'')))"
    by (simp add: non404_failure_def put_no_content_def answering_def ok_def)
  then obtain e1 where d: "snd (delete_method put_no_content (JStr ''abc'')) = Inl e1"
    and e1: "passes_on e1"
    using non404_failure_delete by blast
  have p: "snd (put_method put_no_content (JStr ''abc''))
      = Inl (SyntaxError ''Unexpected end of JSON input'')"
    by (simp add: put_method_def put_no_content_def ok_def json_of_def)
  have "cancel_with put_no_content (JStr ''abc'')
      = ([DeleteBooking (JStr ''abc''), PutBooking (JStr ''abc'') STATUS_CANCELLED],
         Inl (CancellationFailedError (SyntaxError ''Unexpected end of JSON input'')))"
    by (simp add: cancel_with_delete_passes [OF d e1] p)
  with cancelBooking_located [OF r]
  have "cancelBooking put_no_content (JStr ''abc'')
     = ([GetBooking (JStr ''abc''), DeleteBooking (JStr ''abc''),
         PutBooking (JStr ''abc'') STATUS_CANCELLED],
        Inl (CancellationFailedError (SyntaxError ''Unexpected end of JSON input'')))"
    by simp
  moreover have "is_ok (put_no_content (PutBooking (JStr ''abc'') STATUS_CANCELLED))"
    by (simp add: is_ok_def put_no_content_def ok_def)
  ultimately show ?thesis
    using n by (simp add: STATUS_CANCELLED_def)
qed

section \<open>The calendar of the Schedule page\<close>

text \<open>
  A \<^verbatim>\<open>Date\<close> is modelled by its fields in the viewer's time zone: the full year, the
  month counted from 0, the day of the month, and the time of day in milliseconds after
  local midnight. Only valid dates are built (the page starts from \<^verbatim>\<open>new Date()\<close>).
\<close>

record js_date =
  getFullYear :: int
  getMonth :: int
  getDate :: int
  timeOfDay :: nat

text \<open>The proleptic Gregorian calendar of ECMAScript.\<close>

definition leap :: "int \<Rightarrow> bool" where
  "leap y = (y mod 4 = 0 \<and> (y mod 100 \<noteq> 0 \<or> y mod 400 = 0))"

definition days_in_month :: "int \<Rightarrow> int \<Rightarrow> int" where
  "days_in_month y m =
     (if m = 1 then (if leap y then 29 else 28)
      else if m = 3 \<or> m = 5 \<or> m = 8 \<or> m = 10 then 30
      else 31)"

definition prev_month :: "int \<Rightarrow> int \<Rightarrow> int \<times> int" where
  "prev_month y m = (if m = 0 then (y - 1, 11) else (y, m - 1))"

definition next_month :: "int \<Rightarrow> int \<Rightarrow> int \<times> int" where
  "next_month y m = (if m = 11 then (y + 1, 0) else (y, m + 1))"

lemma days_in_month_range: "28 \<le> days_in_month y m \<and> days_in_month y m \<le> 31"
  by (simp add: days_in_month_def)

text \<open>
  \<^verbatim>\<open>new Date(y, m, d)\<close> accepts a day outside the month and a month outside the year:
  ECMAScript's \<^verbatim>\<open>MakeDay\<close> takes day 1 of the month \<open>m mod 12\<close> of the year
  \<open>y + m div 12\<close> and moves \<open>d - 1\<close> days from there. \<open>roll\<close> does the move a month at
  a time. A year argument from 0 to 99 stands for 1900 to 1999. The time of day is
  midnight.
\<close>

function roll :: "int \<Rightarrow> int \<Rightarrow> int \<Rightarrow> int \<times> int \<times> int" where
  "roll y m d =
     (if d < 1 then
        (case prev_month y m of (y', m') \<Rightarrow> roll y' m' (d + days_in_month y' m'))
      else if days_in_month y m < d then
        (case next_month y m of (y', m') \<Rightarrow> roll y' m' (d - days_in_month y m))
      else (y, m, d))"
  by pat_completeness auto
termination
  by (relation "measure (\<lambda>(y, m, d). if d < 1 then nat (33 - d) else nat d)")
     (auto simp: days_in_month_def)

declare roll.simps [simp del]

definition new_Date :: "int \<Rightarrow> int \<Rightarrow> int \<Rightarrow> js_date" where
  "new_Date y m d =
     (let yr = (if 0 \<le> y \<and> y \<le> 99 then 1900 + y else y) in
      case roll (yr + m div 12) (m mod 12) d of
        (y', m', d') \<Rightarrow> \<lparr>getFullYear = y', getMonth = m', getDate = d', timeOfDay = 0\<rparr>)"

text \<open>
  \<^verbatim>\<open>getDay()\<close>, 0 for Sunday: ECMAScript's \<^verbatim>\<open>DayFromYear\<close>, the days of the months
  before, and the day of the month give the day number; day 0 (1 January 1970) was a
  Thursday.
\<close>

definition DayFromYear :: "int \<Rightarrow> int" where
  "DayFromYear y =
     365 * (y - 1970) + (y - 1969) div 4 - (y - 1901) div 100 + (y - 1601) div 400"

definition day_number :: "js_date \<Rightarrow> int" where
  "day_number t =
     DayFromYear (getFullYear t)
     + sum_list (map (days_in_month (getFullYear t)) [0..getMonth t - 1])
     + getDate t - 1"

definition getDay :: "js_date \<Rightarrow> int" where
  "getDay t = (day_number t + 4) mod 7"


subsection \<open>generateCalendar\<close>

definition sameMonth :: "js_date \<Rightarrow> js_date \<Rightarrow> bool" where
  "sameMonth d1 d2 = (getMonth d1 = getMonth d2 \<and> getFullYear d1 = getFullYear d2)"

text \<open>
  \<^verbatim>\<open>start\<close> and \<^verbatim>\<open>end\<close>, then the three loops that push onto \<^verbatim>\<open>days\<close>: the days before
  the first of the month back to the Sunday, the days of the month, and the days of the
  next month up to 42 cells (none when the count is not positive).
\<close>

definition month_start :: "js_date \<Rightarrow> js_date" where
  "month_start baseDate = new_Date (getFullYear baseDate) (getMonth baseDate) 1"

definition month_end :: "js_date \<Rightarrow> js_date" where
  "month_end baseDate = new_Date (getFullYear baseDate) (getMonth baseDate + 1) 0"

definition leading_cells :: "js_date \<Rightarrow> js_date list" where
  "leading_cells baseDate =
     (let start = month_start baseDate; startDay = getDay start in
      map (\<lambda>i. new_Date (getFullYear start) (getMonth start) (i - startDay + 1))
        [0..startDay - 1])"

definition month_cells :: "js_date \<Rightarrow> js_date list" where
  "month_cells baseDate =
     map (\<lambda>d. new_Date (getFullYear baseDate) (getMonth baseDate) d)
       [1..getDate (month_end baseDate)]"

definition trailing_cells :: "js_date \<Rightarrow> js_date list" where
  "trailing_cells baseDate =
     (let remaining = 42 - int (length (leading_cells baseDate @ month_cells baseDate)) in
      map (\<lambda>i. new_Date (getFullYear baseDate) (getMonth baseDate + 1) i) [1..remaining])"

definition generateCalendar :: "js_date \<Rightarrow> js_date list" where
  "generateCalendar baseDate =
     leading_cells baseDate @ month_cells baseDate @ trailing_cells baseDate"

text \<open>
  \<^verbatim>\<open>a < b\<close> on two dates compares their instants; in one time zone that is the
  lexicographic order of the fields.
\<close>

definition date_lt :: "js_date \<Rightarrow> js_date \<Rightarrow> bool" where
  "date_lt a b =
     (getFullYear a < getFullYear b
      \<or> (getFullYear a = getFullYear b
         \<and> (getMonth a < getMonth b
            \<or> (getMonth a = getMonth b
               \<and> (getDate a < getDate b
                  \<or> (getDate a = getDate b \<and> timeOfDay a < timeOfDay b))))))"


text \<open>The cell of day \<open>d\<close> in the month \<open>ym\<close>, at midnight.\<close>

definition mk :: "int \<times> int \<Rightarrow> int \<Rightarrow> js_date" where
  "mk ym d = \<lparr>getFullYear = fst ym, getMonth = snd ym, getDate = d, timeOfDay = 0\<rparr>"

lemma roll_in_range:
  assumes "1 \<le> d" and "d \<le> days_in_month y m"
  shows "roll y m d = (y, m, d)"
  using assms by (subst roll.simps) simp

lemma roll_before:
  assumes "-27 \<le> d" and "d \<le> 0"
  shows "roll y m d = (fst (prev_month y m), snd (prev_month y m),
                       d + days_in_month (fst (prev_month y m)) (snd (prev_month y m)))"
proof -
  obtain y' m' where p: "prev_month y m = (y', m')" by (cases "prev_month y m")
  have "roll y m d = roll y' m' (d + days_in_month y' m')"
    using assms p by (subst roll.simps) simp
  also have "\<dots> = (y', m', d + days_in_month y' m')"
    using assms days_in_month_range [of y' m'] by (intro roll_in_range) auto
  finally show ?thesis by (simp add: p)
qed

text \<open>
  The year the grid is built for (the constructor's reading of the year argument), and
  the range of a date's month.
\<close>

definition shown_year :: "js_date \<Rightarrow> int" where
  "shown_year baseDate =
     (if 0 \<le> getFullYear baseDate \<and> getFullYear baseDate \<le> 99
      then 1900 + getFullYear baseDate else getFullYear baseDate)"

definition valid_month :: "js_date \<Rightarrow> bool" where
  "valid_month t = (0 \<le> getMonth t \<and> getMonth t \<le> 11)"

lemma shown_year_not_two_digits: "\<not> (0 \<le> shown_year b \<and> shown_year b \<le> 99)"
  by (simp add: shown_year_def)

lemma new_Date_this_month:
  assumes "valid_month b"
  shows "new_Date (getFullYear b) (getMonth b) d
           = (case roll (shown_year b) (getMonth b) d of
                (y', m', d') \<Rightarrow> \<lparr>getFullYear = y', getMonth = m', getDate = d', timeOfDay = 0\<rparr>)"
  using assms by (simp add: new_Date_def shown_year_def valid_month_def)

lemma new_Date_next_month:
  assumes "valid_month b"
  shows "new_Date (getFullYear b) (getMonth b + 1) d
           = (case roll (fst (next_month (shown_year b) (getMonth b)))
                        (snd (next_month (shown_year b) (getMonth b))) d of
                (y', m', d') \<Rightarrow> \<lparr>getFullYear = y', getMonth = m', getDate = d', timeOfDay = 0\<rparr>)"
proof (cases "getMonth b = 11")
  case True
  then show ?thesis by (simp add: new_Date_def shown_year_def next_month_def)
next
  case False
  with assms have "(getMonth b + 1) div 12 = 0" and "(getMonth b + 1) mod 12 = getMonth b + 1"
    by (simp_all add: valid_month_def)
  with False show ?thesis by (simp add: new_Date_def shown_year_def next_month_def)
qed

lemma prev_next_month:
  assumes "0 \<le> m" and "m \<le> 11"
  shows "prev_month (fst (next_month y m)) (snd (next_month y m)) = (y, m)"
  using assms by (auto simp: prev_month_def next_month_def)

lemma month_start_eq:
  assumes "valid_month b"
  shows "month_start b = mk (shown_year b, getMonth b) 1"
  using assms days_in_month_range [of "shown_year b" "getMonth b"]
  by (simp add: month_start_def new_Date_this_month roll_in_range mk_def)

lemma month_end_eq:
  assumes "valid_month b"
  shows "month_end b
           = mk (shown_year b, getMonth b) (days_in_month (shown_year b) (getMonth b))"
  using assms
  by (simp add: month_end_def new_Date_next_month roll_before prev_next_month mk_def
      valid_month_def)

lemma month_cells_eq:
  assumes "valid_month b"
  shows "month_cells b
           = map (mk (shown_year b, getMonth b))
               [1..days_in_month (shown_year b) (getMonth b)]"
  unfolding month_cells_def month_end_eq [OF assms]
  by (rule map_cong) (simp_all add: mk_def new_Date_this_month [OF assms] roll_in_range)

definition startDay :: "js_date \<Rightarrow> int" where
  "startDay baseDate = getDay (month_start baseDate)"

lemma startDay_range: "0 \<le> startDay b \<and> startDay b \<le> 6"
proof -
  have "0 \<le> (day_number (month_start b) + 4) mod 7"
    and "(day_number (month_start b) + 4) mod 7 < 7"
    by simp_all
  then show ?thesis by (simp add: startDay_def getDay_def)
qed

lemma leading_cells_eq:
  assumes "valid_month b"
  shows "leading_cells b
           = map (\<lambda>i. mk (prev_month (shown_year b) (getMonth b))
                        (i - startDay b + 1
                         + days_in_month (fst (prev_month (shown_year b) (getMonth b)))
                             (snd (prev_month (shown_year b) (getMonth b)))))
               [0..startDay b - 1]"
proof -
  have start: "getFullYear (month_start b) = shown_year b" "getMonth (month_start b) = getMonth b"
    by (simp_all add: month_start_eq [OF assms] mk_def)
  have nd: "new_Date (shown_year b) (getMonth b) d
      = (case roll (shown_year b) (getMonth b) d of
           (y', m', d') \<Rightarrow> \<lparr>getFullYear = y', getMonth = m', getDate = d', timeOfDay = 0\<rparr>)" for d
    using assms shown_year_not_two_digits [of b]
    by (auto simp: new_Date_def valid_month_def)
  show ?thesis
    unfolding leading_cells_def Let_def start startDay_def [symmetric]
  proof (rule map_cong [OF refl])
    fix i assume "i \<in> set [0..startDay b - 1]"
    then have "-27 \<le> i - startDay b + 1" and "i - startDay b + 1 \<le> 0"
      using startDay_range [of b] by auto
    then show "new_Date (shown_year b) (getMonth b) (i - startDay b + 1)
        = mk (prev_month (shown_year b) (getMonth b))
            (i - startDay b + 1
             + days_in_month (fst (prev_month (shown_year b) (getMonth b)))
                 (snd (prev_month (shown_year b) (getMonth b))))"
      by (simp add: nd roll_before mk_def)
  qed
qed

lemma length_leading: "length (leading_cells b) = nat (startDay b)"
  by (simp add: leading_cells_def Let_def startDay_def)

lemma getDate_month_end_range:
  "28 \<le> getDate (month_end b) \<and> getDate (month_end b) \<le> 31"
proof -
  define yr where "yr = (if 0 \<le> getFullYear b \<and> getFullYear b \<le> 99
      then 1900 + getFullYear b else getFullYear b)"
  define y m where "y = yr + (getMonth b + 1) div 12" and "m = (getMonth b + 1) mod 12"
  have "month_end b = (case roll y m 0 of
      (y', m', d') \<Rightarrow> \<lparr>getFullYear = y', getMonth = m', getDate = d', timeOfDay = 0\<rparr>)"
    by (simp add: month_end_def new_Date_def yr_def y_def m_def)
  then have "getDate (month_end b)
      = days_in_month (fst (prev_month y m)) (snd (prev_month y m))"
    by (simp add: roll_before)
  then show ?thesis
    using days_in_month_range by simp
qed

lemma length_month: "length (month_cells b) = nat (getDate (month_end b))"
  by (simp add: month_cells_def)

lemma length_generateCalendar: "length (generateCalendar b) = 42"
proof -
  have r: "0 \<le> startDay b" "startDay b \<le> 6"
    "28 \<le> getDate (month_end b)" "getDate (month_end b) \<le> 31"
    using startDay_range [of b] getDate_month_end_range [of b] by simp_all
  have l: "int (length (leading_cells b @ month_cells b))
      = startDay b + getDate (month_end b)"
    using r by (simp add: length_leading length_month)
  have "length (trailing_cells b) = nat (42 - (startDay b + getDate (month_end b)))"
    unfolding trailing_cells_def Let_def l by simp
  with l r have "int (length (leading_cells b @ month_cells b)) + int (length (trailing_cells b))
      = 42"
    by linarith
  then show ?thesis
    by (simp add: generateCalendar_def)
qed


lemma trailing_cells_eq:
  assumes "valid_month b"
  shows "trailing_cells b
           = map (mk (next_month (shown_year b) (getMonth b)))
               [1..42 - (startDay b + days_in_month (shown_year b) (getMonth b))]"
proof -
  have r: "0 \<le> startDay b" "28 \<le> getDate (month_end b)"
    using startDay_range [of b] getDate_month_end_range [of b] by simp_all
  have e: "getDate (month_end b) = days_in_month (shown_year b) (getMonth b)"
    by (simp add: month_end_eq [OF assms] mk_def)
  have l: "int (length (leading_cells b @ month_cells b))
      = startDay b + days_in_month (shown_year b) (getMonth b)"
    using r by (simp add: length_leading length_month e [symmetric])
  show ?thesis
    unfolding trailing_cells_def Let_def l
  proof (rule map_cong [OF refl])
    fix i
    assume "i \<in> set [1..42 - (startDay b + days_in_month (shown_year b) (getMonth b))]"
    then have "1 \<le> i" and "i \<le> 14"
      using r e by auto
    then have "i \<le> days_in_month (fst (next_month (shown_year b) (getMonth b)))
        (snd (next_month (shown_year b) (getMonth b)))"
      using days_in_month_range
        [of "fst (next_month (shown_year b) (getMonth b))"
            "snd (next_month (shown_year b) (getMonth b))"] by simp
    with \<open>1 \<le> i\<close> show "new_Date (getFullYear b) (getMonth b + 1) i
        = mk (next_month (shown_year b) (getMonth b)) i"
      by (simp add: new_Date_next_month [OF assms] roll_in_range mk_def)
  qed
qed

definition ym_lt :: "int \<times> int \<Rightarrow> int \<times> int \<Rightarrow> bool" where
  "ym_lt a b = (fst a < fst b \<or> (fst a = fst b \<and> snd a < snd b))"

lemma date_lt_mk:
  "date_lt (mk a d) (mk a' d') \<longleftrightarrow> ym_lt a a' \<or> (a = a' \<and> d < d')"
  by (auto simp: date_lt_def mk_def ym_lt_def prod_eq_iff)

lemma prev_lt: "0 \<le> m \<Longrightarrow> ym_lt (prev_month y m) (y, m)"
  by (simp add: ym_lt_def prev_month_def)

lemma next_gt: "m \<le> 11 \<Longrightarrow> ym_lt (y, m) (next_month y m)"
  by (simp add: ym_lt_def next_month_def)

lemma ym_lt_trans: "ym_lt a b \<Longrightarrow> ym_lt b c \<Longrightarrow> ym_lt a c"
  by (auto simp: ym_lt_def)

lemma sorted_run: "sorted_wrt date_lt (map (\<lambda>i. mk a (i + c)) [lo..hi])"
proof -
  have "sorted_wrt (\<lambda>i j. date_lt (mk a (i + c)) (mk a (j + c))) [lo..hi]"
    by (rule sorted_wrt_mono_rel [OF _ sorted_wrt_upto]) (simp add: date_lt_mk)
  then show ?thesis
    by (simp add: sorted_wrt_map)
qed

lemma sorted_run0: "sorted_wrt date_lt (map (mk a) [lo..hi])"
  using sorted_run [of a 0 lo hi] by simp

lemma sorted_generateCalendar:
  assumes "valid_month b"
  shows "sorted_wrt date_lt (generateCalendar b)"
proof -
  let ?c = "(shown_year b, getMonth b)"
  let ?p = "prev_month (shown_year b) (getMonth b)"
  let ?n = "next_month (shown_year b) (getMonth b)"
  have pc: "ym_lt ?p ?c" and cn: "ym_lt ?c ?n"
    using assms by (simp_all add: prev_lt next_gt valid_month_def)
  then have pn: "ym_lt ?p ?n"
    by (rule ym_lt_trans)
  have L: "sorted_wrt date_lt (leading_cells b)"
    unfolding leading_cells_eq [OF assms]
    using sorted_run [of ?p "- startDay b + 1 + days_in_month (fst ?p) (snd ?p)" 0 "startDay b - 1"]
    by (simp add: algebra_simps)
  have M: "sorted_wrt date_lt (month_cells b)"
    unfolding month_cells_eq [OF assms] by (rule sorted_run0)
  have T: "sorted_wrt date_lt (trailing_cells b)"
    unfolding trailing_cells_eq [OF assms] by (rule sorted_run0)
  have LM: "\<forall>x\<in>set (leading_cells b). \<forall>y\<in>set (month_cells b). date_lt x y"
    using pc by (auto simp: leading_cells_eq [OF assms] month_cells_eq [OF assms] date_lt_mk)
  have LT: "\<forall>x\<in>set (leading_cells b). \<forall>y\<in>set (trailing_cells b). date_lt x y"
    using pn by (auto simp: leading_cells_eq [OF assms] trailing_cells_eq [OF assms] date_lt_mk)
  have MT: "\<forall>x\<in>set (month_cells b). \<forall>y\<in>set (trailing_cells b). date_lt x y"
    using cn by (auto simp: month_cells_eq [OF assms] trailing_cells_eq [OF assms] date_lt_mk)
  show ?thesis
    using L M T LM LT MT by (auto simp: generateCalendar_def sorted_wrt_append)
qed


subsection \<open>The cells of the calendar body\<close>

text \<open>
  \<^verbatim>\<open>isDateDisabled\<close> compares a cell with \<^verbatim>\<open>new Date()\<close> after \<^verbatim>\<open>setHours(0, 0, 0, 0)\<close>;
  a cell is rendered with \<^verbatim>\<open>isDisabled = !isCurrent || isDateDisabled(d)\<close> and its click
  handler is \<^verbatim>\<open>!isDisabled && setSelectedDate(d)\<close>. \<open>onClick\<close> gives the selected date
  after the click.
\<close>

definition setHours0 :: "js_date \<Rightarrow> js_date" where
  "setHours0 t = t\<lparr>timeOfDay := 0\<rparr>"

definition isDateDisabled :: "js_date \<Rightarrow> js_date \<Rightarrow> bool" where
  "isDateDisabled now date = (let today = setHours0 now in date_lt date today)"

definition isDisabled :: "js_date \<Rightarrow> js_date \<Rightarrow> js_date \<Rightarrow> bool" where
  "isDisabled now viewMonth d =
     (let isCurrent = sameMonth d viewMonth in \<not> isCurrent \<or> isDateDisabled now d)"

definition onClick :: "js_date \<Rightarrow> js_date \<Rightarrow> js_date option \<Rightarrow> js_date \<Rightarrow> js_date option" where
  "onClick now viewMonth selectedDate d =
     (if \<not> isDisabled now viewMonth d then Some d else selectedDate)"

text \<open>The claim's words: the calendar day of \<open>a\<close> is strictly before that of \<open>b\<close>.\<close>

definition day_before :: "js_date \<Rightarrow> js_date \<Rightarrow> bool" where
  "day_before a b =
     (getFullYear a < getFullYear b
      \<or> (getFullYear a = getFullYear b
         \<and> (getMonth a < getMonth b
            \<or> (getMonth a = getMonth b \<and> getDate a < getDate b))))"

lemma padding_other_month:
  assumes "valid_month b"
  shows "\<forall>c\<in>set (leading_cells b @ trailing_cells b). \<not> sameMonth c b"
proof -
  have p: "prev_month (shown_year b) (getMonth b) \<noteq> (getFullYear b, getMonth b)"
    by (auto simp: prev_month_def)
  have n: "next_month (shown_year b) (getMonth b) \<noteq> (getFullYear b, getMonth b)"
    by (auto simp: next_month_def)
  show ?thesis
    using p n
    by (auto simp: leading_cells_eq [OF assms] trailing_cells_eq [OF assms] sameMonth_def
        mk_def prod_eq_iff)
qed

lemma month_cells_same_month:
  assumes "valid_month b" and "\<not> (0 \<le> getFullYear b \<and> getFullYear b \<le> 99)"
  shows "month_cells b
           = map (\<lambda>d. \<lparr>getFullYear = getFullYear b, getMonth = getMonth b, getDate = d,
                        timeOfDay = 0\<rparr>)
               [1..days_in_month (getFullYear b) (getMonth b)]"
    and "\<forall>c\<in>set (month_cells b). sameMonth c b"
proof -
  from assms(2) have y: "shown_year b = getFullYear b"
    by (simp add: shown_year_def)
  show "month_cells b
           = map (\<lambda>d. \<lparr>getFullYear = getFullYear b, getMonth = getMonth b, getDate = d,
                        timeOfDay = 0\<rparr>)
               [1..days_in_month (getFullYear b) (getMonth b)]"
    by (simp add: month_cells_eq [OF assms(1)] y mk_def)
  then show "\<forall>c\<in>set (month_cells b). sameMonth c b"
    by (auto simp: sameMonth_def)
qed

lemma sunday_no_leading:
  assumes "getDay (month_start b) = 0"
  shows "leading_cells b = []"
  using assms by (simp add: leading_cells_def)

text \<open>
  C3. The grid has exactly 42 cells for every reference date. For a reference date with
  a month from 0 to 11: the cells of the target month, as \<open>sameMonth\<close> marks them, are
  in strictly ascending date order, and no padding cell is marked as of the target
  month. When moreover the year is not one the constructor reads as 19xx, the cells
  between the padding are exactly the days 1 to the last of the target month, all marked
  as of it. When the first of the month is a Sunday there is no leading padding: the
  grid is the month followed by the trailing cells.
\<close>

theorem generateCalendar_grid:
  "length (generateCalendar b) = 42
   \<and> (valid_month b \<longrightarrow>
        sorted_wrt date_lt (filter (\<lambda>c. sameMonth c b) (generateCalendar b))
      \<and> (\<forall>c\<in>set (leading_cells b @ trailing_cells b). \<not> sameMonth c b))
   \<and> (valid_month b \<and> \<not> (0 \<le> getFullYear b \<and> getFullYear b \<le> 99) \<longrightarrow>
        month_cells b
          = map (\<lambda>d. \<lparr>getFullYear = getFullYear b, getMonth = getMonth b, getDate = d,
                       timeOfDay = 0\<rparr>)
              [1..days_in_month (getFullYear b) (getMonth b)]
      \<and> (\<forall>c\<in>set (month_cells b). sameMonth c b))
   \<and> (getDay (month_start b) = 0 \<longrightarrow>
        leading_cells b = [] \<and> generateCalendar b = month_cells b @ trailing_cells b)"
proof (intro conjI impI)
  show "length (generateCalendar b) = 42"
    by (rule length_generateCalendar)
next
  assume "valid_month b"
  then show "sorted_wrt date_lt (filter (\<lambda>c. sameMonth c b) (generateCalendar b))"
    by (intro sorted_wrt_filter sorted_generateCalendar)
next
  assume "valid_month b"
  then show "\<forall>c\<in>set (leading_cells b @ trailing_cells b). \<not> sameMonth c b"
    by (rule padding_other_month)
next
  assume v: "valid_month b \<and> \<not> (0 \<le> getFullYear b \<and> getFullYear b \<le> 99)"
  then show "month_cells b
          = map (\<lambda>d. \<lparr>getFullYear = getFullYear b, getMonth = getMonth b, getDate = d,
                       timeOfDay = 0\<rparr>)
              [1..days_in_month (getFullYear b) (getMonth b)]"
    by (intro month_cells_same_month(1)) simp_all
  from v show "\<forall>c\<in>set (month_cells b). sameMonth c b"
    by (intro month_cells_same_month(2)) simp_all
next
  assume s: "getDay (month_start b) = 0"
  then show "leading_cells b = []"
    by (rule sunday_no_leading)
  then show "generateCalendar b = month_cells b @ trailing_cells b"
    by (simp add: generateCalendar_def)
qed

text \<open>Two reference dates: November 2026 starts on a Sunday, March 2025 on a Saturday.\<close>

definition november_2026 :: js_date where
  "november_2026 = \<lparr>getFullYear = 2026, getMonth = 10, getDate = 2, timeOfDay = 37800000\<rparr>"

definition march_2025 :: js_date where
  "march_2025 = \<lparr>getFullYear = 2025, getMonth = 2, getDate = 14, timeOfDay = 0\<rparr>"

lemma november_2026_sunday: "getDay (month_start november_2026) = 0"
proof -
  have "valid_month november_2026"
    by (simp add: valid_month_def november_2026_def)
  then have "month_start november_2026 = mk (2026, 10) 1"
    by (simp add: month_start_eq) (simp add: shown_year_def november_2026_def)
  moreover have "sum_list (map (days_in_month 2026) [0..9]) = 304"
    by code_simp
  ultimately show ?thesis
    by (simp add: mk_def getDay_def day_number_def DayFromYear_def)
qed

lemma march_2025_saturday: "getDay (month_start march_2025) = 6"
proof -
  have "valid_month march_2025"
    by (simp add: valid_month_def march_2025_def)
  then have "month_start march_2025 = mk (2025, 2) 1"
    by (simp add: month_start_eq) (simp add: shown_year_def march_2025_def)
  moreover have "sum_list (map (days_in_month 2025) [0..1]) = 59"
    by code_simp
  ultimately show ?thesis
    by (simp add: mk_def getDay_def day_number_def DayFromYear_def)
qed


theorem generateCalendar_grid_witness:
  "length (generateCalendar november_2026) = 42
   \<and> length (generateCalendar march_2025) = 42
   \<and> sorted_wrt date_lt
       (filter (\<lambda>c. sameMonth c november_2026) (generateCalendar november_2026))
   \<and> month_cells november_2026
       = map (\<lambda>d. \<lparr>getFullYear = 2026, getMonth = 10, getDate = d, timeOfDay = 0\<rparr>) [1..30]
   \<and> leading_cells november_2026 = []
   \<and> generateCalendar november_2026
       = month_cells november_2026 @ trailing_cells november_2026"
proof -
  have v: "valid_month november_2026"
    and y: "\<not> (0 \<le> getFullYear november_2026 \<and> getFullYear november_2026 \<le> 99)"
    and f: "getFullYear november_2026 = 2026" "getMonth november_2026 = 10"
    and d: "days_in_month 2026 10 = 30"
    by (simp_all add: valid_month_def november_2026_def days_in_month_def)
  note g = generateCalendar_grid [of november_2026]
  from g have 1: "length (generateCalendar november_2026) = 42"
    by (rule conjunct1)
  from generateCalendar_grid [of march_2025]
  have 2: "length (generateCalendar march_2025) = 42"
    by (rule conjunct1)
  from g v have 3: "sorted_wrt date_lt
       (filter (\<lambda>c. sameMonth c november_2026) (generateCalendar november_2026))"
    by blast
  from g v y have "month_cells november_2026
      = map (\<lambda>d. \<lparr>getFullYear = getFullYear november_2026,
                   getMonth = getMonth november_2026, getDate = d, timeOfDay = 0\<rparr>)
          [1..days_in_month (getFullYear november_2026) (getMonth november_2026)]"
    by blast
  then have 4: "month_cells november_2026
       = map (\<lambda>d. \<lparr>getFullYear = 2026, getMonth = 10, getDate = d, timeOfDay = 0\<rparr>) [1..30]"
    by (simp only: f d)
  from g november_2026_sunday have 5: "leading_cells november_2026 = []"
    by blast
  from g november_2026_sunday have 6: "generateCalendar november_2026
       = month_cells november_2026 @ trailing_cells november_2026"
    by blast
  show ?thesis
    by (intro conjI) (rule 1 2 3 4 5 6)+
qed

text \<open>
  C9. A cell is disabled exactly when its calendar day is strictly before the current
  day or it is outside the displayed month; a click on a disabled cell leaves the
  selected date as it was.
\<close>

theorem cell_disabled:
  "(isDisabled now viewMonth d \<longleftrightarrow> day_before d now \<or> \<not> sameMonth d viewMonth)
   \<and> (isDisabled now viewMonth d \<longrightarrow> onClick now viewMonth selectedDate d = selectedDate)"
  by (auto simp: isDisabled_def isDateDisabled_def setHours0_def date_lt_def day_before_def
      onClick_def)

theorem cell_disabled_witness:
  "isDisabled november_2026 november_2026
     \<lparr>getFullYear = 2026, getMonth = 10, getDate = 1, timeOfDay = 0\<rparr>
   \<and> onClick november_2026 november_2026 None
       \<lparr>getFullYear = 2026, getMonth = 10, getDate = 1, timeOfDay = 0\<rparr> = None
   \<and> isDisabled november_2026 november_2026
       \<lparr>getFullYear = 2026, getMonth = 11, getDate = 1, timeOfDay = 0\<rparr>
   \<and> \<not> isDisabled november_2026 november_2026
       \<lparr>getFullYear = 2026, getMonth = 10, getDate = 2, timeOfDay = 0\<rparr>"
  using
    cell_disabled [of november_2026 november_2026
      "\<lparr>getFullYear = 2026, getMonth = 10, getDate = 1, timeOfDay = 0\<rparr>" None]
    cell_disabled [of november_2026 november_2026
      "\<lparr>getFullYear = 2026, getMonth = 11, getDate = 1, timeOfDay = 0\<rparr>" None]
    cell_disabled [of november_2026 november_2026
      "\<lparr>getFullYear = 2026, getMonth = 10, getDate = 2, timeOfDay = 0\<rparr>" None]
  by (simp add: day_before_def sameMonth_def november_2026_def)

section \<open>Booking a slot (Schedule, onBook)\<close>


text \<open>
  The signed-in user as the auth provider gives it (its \<^verbatim>\<open>email\<close> is a string or
  \<^verbatim>\<open>null\<close>), and the state of the page that \<^verbatim>\<open>onBook\<close> reads and writes.
\<close>

record firebase_user =
  email :: "string option"

record schedule =
  selectedDate :: "js_date option"
  selectedTime :: "string option"
  user :: "firebase_user option"
  processing :: bool
  errMsg :: string























end
